theory Spec2Isabelle
  imports Main "HOL-Library.Sublist"
begin

section \<open>Strings of the Go standard library\<close>

text \<open>
  A Go string is a byte sequence: \<^typ>\<open>string\<close>. The functions of package
  \<^verbatim>\<open>strings\<close> that the report package calls are embedded here on bytes.
\<close>

definition HasPrefix :: "string \<Rightarrow> string \<Rightarrow> bool" where
  "HasPrefix s p = prefix p s"

fun Contains :: "string \<Rightarrow> string \<Rightarrow> bool" where
  "Contains [] substr = (substr = [])"
| "Contains (c # cs) substr = (prefix substr (c # cs) \<or> Contains cs substr)"

text \<open>
  \<^verbatim>\<open>strings.Split(s, sep)\<close> for a non-empty separator: the fields between the leftmost,
  non-overlapping occurrences of \<open>sep\<close>; always at least one field. (With the empty
  separator Go splits after each UTF-8 sequence; the report package never passes it, here
  it yields one field per byte.)
\<close>

fun Split :: "string \<Rightarrow> string \<Rightarrow> string list" where
  "Split s [] = map (\<lambda>c. [c]) s"
| "Split [] (d # ds) = [[]]"
| "Split (c # cs) (d # ds) =
     (if prefix (d # ds) (c # cs) then [] # Split (drop (length ds) cs) (d # ds)
      else (case Split cs (d # ds) of
              [] \<Rightarrow> [[c]]
            | f # fs \<Rightarrow> (c # f) # fs))"

fun Join :: "string list \<Rightarrow> string \<Rightarrow> string" where
  "Join [] sep = []"
| "Join [x] sep = x"
| "Join (x # y # ys) sep = x @ sep @ Join (y # ys) sep"

text \<open>
  \<^verbatim>\<open>strings.TrimSpace\<close> removes the leading and trailing white space runes of Unicode.
  \<open>whiteSpace\<close> lists their UTF-8 encodings: the six ASCII ones, U+0085, U+00A0, U+1680,
  U+2000 to U+200A, U+2028, U+2029, U+202F, U+205F and U+3000.
\<close>

definition whiteSpace :: "string list" where
  "whiteSpace =
    [[CHR 0x09], [CHR ''\<newline>''], [CHR 0x0B], [CHR 0x0C], [CHR 0x0D], [CHR '' ''],
     [CHR 0xC2, CHR 0x85], [CHR 0xC2, CHR 0xA0],
     [CHR 0xE1, CHR 0x9A, CHR 0x80],
     [CHR 0xE2, CHR 0x80, CHR 0x80], [CHR 0xE2, CHR 0x80, CHR 0x81],
     [CHR 0xE2, CHR 0x80, CHR 0x82], [CHR 0xE2, CHR 0x80, CHR 0x83],
     [CHR 0xE2, CHR 0x80, CHR 0x84], [CHR 0xE2, CHR 0x80, CHR 0x85],
     [CHR 0xE2, CHR 0x80, CHR 0x86], [CHR 0xE2, CHR 0x80, CHR 0x87],
     [CHR 0xE2, CHR 0x80, CHR 0x88], [CHR 0xE2, CHR 0x80, CHR 0x89],
     [CHR 0xE2, CHR 0x80, CHR 0x8A],
     [CHR 0xE2, CHR 0x80, CHR 0xA8], [CHR 0xE2, CHR 0x80, CHR 0xA9],
     [CHR 0xE2, CHR 0x80, CHR 0xAF], [CHR 0xE2, CHR 0x81, CHR 0x9F],
     [CHR 0xE3, CHR 0x80, CHR 0x80]]"

definition spaceWidth :: "string list \<Rightarrow> string \<Rightarrow> nat" where
  "spaceWidth ws s = (case find (\<lambda>w. prefix w s) ws of None \<Rightarrow> 0 | Some w \<Rightarrow> length w)"

function trimLeading :: "string list \<Rightarrow> string \<Rightarrow> string" where
  "trimLeading ws s =
     (if spaceWidth ws s = 0 then s else trimLeading ws (drop (spaceWidth ws s) s))"
  by pat_completeness auto
termination
proof (relation "measure (\<lambda>(ws, s). length s)")
  show "wf (measure (\<lambda>(ws, s). length s))" by simp
next
  fix ws :: "string list" and s :: string
  assume "spaceWidth ws s \<noteq> 0"
  moreover have "spaceWidth ws s \<le> length s"
    by (auto simp: spaceWidth_def find_Some_iff prefix_def split: option.splits)
  ultimately show "((ws, drop (spaceWidth ws s) s), (ws, s)) \<in> measure (\<lambda>(ws, s). length s)"
    by simp
qed

declare trimLeading.simps [simp del]

definition TrimSpace :: "string \<Rightarrow> string" where
  "TrimSpace s = rev (trimLeading (map rev whiteSpace) (rev (trimLeading whiteSpace s)))"

text \<open>\<^verbatim>\<open>strconv.ParseBool\<close> and \<^verbatim>\<open>strconv.FormatBool\<close>; \<open>None\<close> is the syntax error.\<close>

definition ParseBool :: "string \<Rightarrow> bool option" where
  "ParseBool str =
     (if str \<in> {''1'', ''t'', ''T'', ''TRUE'', ''true'', ''True''} then Some True
      else if str \<in> {''0'', ''f'', ''F'', ''FALSE'', ''false'', ''False''} then Some False
      else None)"

definition FormatBool :: "bool \<Rightarrow> string" where
  "FormatBool b = (if b then ''true'' else ''false'')"

section \<open>Data model\<close>

text \<open>
  A Go \<^verbatim>\<open>error\<close> value is its message; a run-time panic (nil dereference, index out of
  range) is a result of its own.
\<close>

datatype error = Error string | Panic string

definition nilDereference :: error where
  "nilDereference = Panic ''invalid memory address or nil pointer dereference''"

definition indexOutOfRange :: error where
  "indexOutOfRange = Panic ''index out of range''"

text \<open>
  Modelled from the spec: the job types and the six outcome states of package
  \<^verbatim>\<open>prowjobs/v1\<close> (imported as \<open>prowapi\<close> and \<open>v1\<close>), whose declarations are not under
  src/. Both are string types in Go, so a value outside the declared constants exists.
\<close>

type_synonym ProwJobType = string
type_synonym ProwJobState = string

definition PresubmitJob :: ProwJobType where "PresubmitJob = ''presubmit''"
definition PostsubmitJob :: ProwJobType where "PostsubmitJob = ''postsubmit''"

definition TriggeredState :: ProwJobState where "TriggeredState = ''triggered''"
definition PendingState :: ProwJobState where "PendingState = ''pending''"
definition SuccessState :: ProwJobState where "SuccessState = ''success''"
definition FailureState :: ProwJobState where "FailureState = ''failure''"
definition AbortedState :: ProwJobState where "AbortedState = ''aborted''"
definition ErrorState :: ProwJobState where "ErrorState = ''error''"

text \<open>
  Modelled from the spec: the four status literals of package \<^verbatim>\<open>github\<close> (section 6 of
  the spec), the label key \<^verbatim>\<open>kube.IsOptionalLabel\<close> and the text \<^verbatim>\<open>plugins.AboutThisBot\<close>
  (as TestCreateComment expects it); none is declared under src/.
\<close>

definition StatusPending :: string where "StatusPending = ''pending''"
definition StatusSuccess :: string where "StatusSuccess = ''success''"
definition StatusError :: string where "StatusError = ''error''"
definition StatusFailure :: string where "StatusFailure = ''failure''"

definition IsOptionalLabel :: string where
  "IsOptionalLabel = ''prow.k8s.io/is-optional''"

definition AboutThisBot :: string where
  "AboutThisBot = ''Instructions for interacting with me using PR comments are available [here](https://git.k8s.io/community/contributors/guide/pull-requests.md).  If you have questions or suggestions related to my behavior, please file an issue against the [kubernetes/test-infra](https://github.com/kubernetes/test-infra/issues/new?title=Prow%20issue:) repository. I understand the commands that are listed [here](https://go.k8s.io/bot-commands).''"

definition commentTag :: string where
  "commentTag = ''<!-- test report -->''"

definition prCommitNote :: string where
  "prCommitNote = ''postsubmit job(s) were triggered at commit: ''"

record Pull =
  Pull_Number :: int
  Pull_SHA :: string
  Pull_Author :: string

record Refs =
  Refs_Org :: string
  Refs_Repo :: string
  Refs_BaseSHA :: string
  Refs_Author :: string
  Refs_Pulls :: "Pull list"

record GitHubReporterConfig =
  CommentOnPostsubmits :: bool

record ReporterConfig =
  ReporterConfig_GitHub :: "GitHubReporterConfig option"

text \<open>Pointer fields (\<open>Refs\<close>, \<open>ReporterConfig\<close>, \<open>CompletionTime\<close>) are options: \<open>None\<close> is nil.\<close>

record ProwJobSpec =
  Spec_Type :: ProwJobType
  Spec_Job :: string
  Spec_Refs :: "Refs option"
  Spec_Report :: bool
  Spec_Context :: string
  Spec_RerunCommand :: string
  Spec_ReporterConfig :: "ReporterConfig option"

record ProwJobStatus =
  Status_State :: ProwJobState
  Status_Description :: string
  Status_URL :: string
  Status_CompletionTime :: "nat option"

record ProwJob =
  ObjectMeta_Name :: string
  Labels :: "string \<rightharpoonup> string"
  Spec :: ProwJobSpec
  Status :: ProwJobStatus

text \<open>
  Modelled from the spec: the method \<^verbatim>\<open>Complete\<close> of a ProwJob is not under src/; it is the
  completion flag of the spec's data model, which TestReport sets through
  \<open>Status.CompletionTime\<close>.
\<close>

definition Complete :: "ProwJob \<Rightarrow> bool" where
  "Complete pj = (Status_CompletionTime (Status pj) \<noteq> None)"

record IssueComment =
  ID :: int
  Body :: string
  User_Login :: string

record GitHubStatus =
  GH_State :: string
  GH_Description :: string
  GH_Context :: string
  GH_TargetURL :: string

record GitHubReporter =
  JobTypesToReport :: "ProwJobType list"

section \<open>Status mapper\<close>

definition prowjobStateToGitHubStatus :: "ProwJobState \<Rightarrow> error + string" where
  "prowjobStateToGitHubStatus pjState =
     (if pjState = TriggeredState then Inr StatusPending
      else if pjState = PendingState then Inr StatusPending
      else if pjState = SuccessState then Inr StatusSuccess
      else if pjState = ErrorState then Inr StatusError
      else if pjState = FailureState then Inr StatusFailure
      else if pjState = AbortedState then Inr StatusFailure
      else Inl (Error (''Unknown prowjob state: '' @ pjState)))"

section \<open>Comment history parser and entry reconciler\<close>

text \<open>
  \<^verbatim>\<open>parseIssueComments\<close> is one Go function made of four loops. Each loop body is a
  function here, named after what it computes, and the loop is its fold over the slice.
  First loop, inner part: the walk over the lines of one comment body, with the local
  \<open>tracking\<close> and the accumulated \<open>entries\<close> as state.
\<close>

definition lineStep :: "bool \<times> string list \<Rightarrow> string \<Rightarrow> bool \<times> string list" where
  "lineStep st l =
     (case st of (tracking, entries) \<Rightarrow>
        (let line = TrimSpace l in
         if HasPrefix line ''---'' then (True, entries)
         else if length line = 0 then (False, entries)
         else if tracking then (tracking, entries @ [line])
         else (tracking, entries)))"

definition scanBody :: "string list \<Rightarrow> string \<Rightarrow> string list" where
  "scanBody entries body = snd (foldl lineStep (False, entries) (Split body [CHR ''\<newline>'']))"

text \<open>First loop, outer part: state \<open>(previousComments, latestComment, entries)\<close>.\<close>

definition commentStep ::
  "(string \<Rightarrow> bool) \<Rightarrow> int list \<times> int \<times> string list \<Rightarrow> IssueComment \<Rightarrow> int list \<times> int \<times> string list" where
  "commentStep isBot st ic =
     (case st of (previousComments, latestComment, entries) \<Rightarrow>
        if \<not> isBot (User_Login ic) then st
        else if \<not> Contains (Body ic) commentTag then st
        else ((if latestComment \<noteq> 0 then previousComments @ [latestComment] else previousComments),
              ID ic,
              scanBody entries (Body ic)))"

definition scanComments ::
  "(string \<Rightarrow> bool) \<Rightarrow> IssueComment list \<Rightarrow> int list \<times> int \<times> string list" where
  "scanComments isBot ics = foldl (commentStep isBot) ([], 0, []) ics"

text \<open>Second loop: \<open>pjsMap[pj.Spec.Context] = pj\<close>.\<close>

definition pjsMapOf :: "ProwJob list \<Rightarrow> (string \<rightharpoonup> ProwJob)" where
  "pjsMapOf pjs = foldl (\<lambda>m pj. m(Spec_Context (Spec pj) \<mapsto> pj)) Map.empty pjs"

text \<open>
  Third loop: for index \<open>i\<close> the inner loop over every index \<open>j\<close> computes \<open>keep\<close>, then the
  lookup in \<open>pjsMap\<close> may clear it. \<open>f1[0]\<close> is \<open>hd f1\<close>: \<open>Split\<close> never returns the empty
  list for a non-empty separator.
\<close>

definition keepEntry :: "string list \<Rightarrow> (string \<rightharpoonup> ProwJob) \<Rightarrow> nat \<Rightarrow> bool" where
  "keepEntry entries pjsMap i =
     (let f1 = Split (entries ! i) '' | '';
          keep = foldl (\<lambda>keep j.
                          if i = j then keep
                          else (let f2 = Split (entries ! j) '' | '' in
                                if j > i \<and> hd f2 = hd f1 then False else keep))
                   True [0..<length entries]
      in if pjsMap (hd f1) \<noteq> None then False else keep)"

definition keptEntries :: "string list \<Rightarrow> (string \<rightharpoonup> ProwJob) \<Rightarrow> string list" where
  "keptEntries entries pjsMap =
     foldl (\<lambda>newEntries i. if keepEntry entries pjsMap i then newEntries @ [entries ! i] else newEntries)
       [] [0..<length entries]"

definition createEntry :: "ProwJob \<Rightarrow> error + string" where
  "createEntry pj =
     (let required =
        (if Spec_Type (Spec pj) = PresubmitJob then
           (case Labels pj IsOptionalLabel of
              Some label \<Rightarrow>
                (case ParseBool label of
                   Some optional \<Rightarrow> FormatBool (\<not> optional)
                 | None \<Rightarrow> ''unknown'')
            | None \<Rightarrow> ''unknown'')
         else ''unknown'')
      in
      case Spec_Refs (Spec pj) of
        None \<Rightarrow> Inl nilDereference
      | Some refs \<Rightarrow>
          if Spec_Type (Spec pj) = PostsubmitJob then
            Inr (Join [Spec_Context (Spec pj),
                       Refs_BaseSHA refs,
                       ''[link]('' @ Status_URL (Status pj) @ '')''] '' | '')
          else
            (case Refs_Pulls refs of
               [] \<Rightarrow> Inl indexOutOfRange
             | p # _ \<Rightarrow>
                 Inr (Join [Spec_Context (Spec pj),
                            Pull_SHA p,
                            ''[link]('' @ Status_URL (Status pj) @ '')'',
                            required,
                            ''`'' @ Spec_RerunCommand (Spec pj) @ ''`''] '' | '')))"

text \<open>Fourth loop: state \<open>(newEntries, createNewComment)\<close>; a panic of \<open>createEntry\<close> ends it.\<close>

fun appendFailures :: "ProwJob list \<Rightarrow> string list \<times> bool \<Rightarrow> error + (string list \<times> bool)" where
  "appendFailures [] st = Inr st"
| "appendFailures (pj # pjs) (newEntries, createNewComment) =
     (if Status_State (Status pj) = StatusFailure then
        (case createEntry pj of
           Inl e \<Rightarrow> Inl e
         | Inr entry \<Rightarrow> appendFailures pjs (newEntries @ [entry], True))
      else appendFailures pjs (newEntries, createNewComment))"

definition parseIssueComments ::
  "ProwJob list \<Rightarrow> (string \<Rightarrow> bool) \<Rightarrow> IssueComment list \<Rightarrow> error + (int list \<times> string list \<times> int)" where
  "parseIssueComments pjs isBot ics =
     (case scanComments isBot ics of (previousComments, latestComment, entries) \<Rightarrow>
        (case appendFailures pjs (keptEntries entries (pjsMapOf pjs), False) of
           Inl e \<Rightarrow> Inl e
         | Inr (newEntries, createNewComment) \<Rightarrow>
             (let delete = [] @ previousComments in
              if (createNewComment \<or> length newEntries = 0) \<and> latestComment \<noteq> 0
              then Inr (delete @ [latestComment], newEntries, 0)
              else Inr (delete, newEntries, latestComment))))"

section \<open>Comment renderer\<close>

text \<open>
  A report template is what its execution on a job writes, or the message of its error;
  \<open>None\<close> is the nil template.
\<close>

type_synonym template = "ProwJob \<Rightarrow> string + string"

definition createComment :: "template option \<Rightarrow> ProwJob list \<Rightarrow> string list \<Rightarrow> error + string" where
  "createComment reportTemplate pjs entries =
     (case pjs of
        [] \<Rightarrow> Inr []
      | pj0 # _ \<Rightarrow>
          (let plural = (if length entries > 1 then ''s'' else []) in
           case (case reportTemplate of None \<Rightarrow> Inr [] | Some t \<Rightarrow> t pj0) of
             Inl err \<Rightarrow> Inl (Error err)
           | Inr b \<Rightarrow>
               (case Spec_Refs (Spec pj0) of
                  None \<Rightarrow> Inl nilDereference
                | Some refs \<Rightarrow>
                    (case (if Spec_Type (Spec pj0) = PostsubmitJob then Inr (Refs_Author refs)
                           else (case Refs_Pulls refs of
                                   [] \<Rightarrow> Inl indexOutOfRange
                                 | p # _ \<Rightarrow> Inr (Pull_Author p))) of
                       Inl e \<Rightarrow> Inl e
                     | Inr author \<Rightarrow>
                         (let lines0 =
                               (if Spec_Type (Spec pj0) = PostsubmitJob then
                                  [''@'' @ author @ '': The following test'' @ plural @ '' **failed**:'',
                                   [],
                                   ''Test name | Commit | Details'',
                                   ''--- | --- | ---'']
                                else
                                  [''@'' @ author @ '': The following test'' @ plural @
                                     '' **failed**, say `/retest` to rerun all failed tests or `/retest-required` to rerun all mandatory failed tests:'',
                                   [],
                                   ''Test name | Commit | Details | Required | Rerun command'',
                                   ''--- | --- | --- | --- | ---'']);
                              lines1 =
                               (if length entries = 0 then
                                  [''@'' @ author @ '': all tests **passed!**'', []]
                                else lines0);
                              lines2 = lines1 @ entries;
                              lines3 = (if reportTemplate \<noteq> None then lines2 @ [[], b] else lines2);
                              lines4 = lines3 @ [[], ''<details>'', [], AboutThisBot, ''</details>'', commentTag]
                          in Inr (Join lines4 [CHR ''\<newline>'']))))))"

section \<open>Synchronizer\<close>

text \<open>
  The remote calls of interface \<^verbatim>\<open>GitHubClient\<close>. A run threads the log of the calls it
  has issued; a client answers a call from the log of the calls before it, which makes any
  deterministic remote store an instance. An answer \<open>Inl msg\<close> or \<open>Some msg\<close> is the
  error the call returns.
\<close>

datatype call =
    BotUserChecker
  | CreateStatus string string string GitHubStatus
  | ListIssueComments string string int
  | CreateComment string string int string
  | DeleteComment string string int
  | EditComment string string int string
  | CreateCommitComment string string string string
  | ListCommitComments string string string

record GitHubClient =
  BotUserCheckerWithContext :: "call list \<Rightarrow> string + (string \<Rightarrow> bool)"
  CreateStatusWithContext :: "call list \<Rightarrow> string \<Rightarrow> string \<Rightarrow> string \<Rightarrow> GitHubStatus \<Rightarrow> string option"
  ListIssueCommentsWithContext :: "call list \<Rightarrow> string \<Rightarrow> string \<Rightarrow> int \<Rightarrow> string + IssueComment list"
  CreateCommentWithContext :: "call list \<Rightarrow> string \<Rightarrow> string \<Rightarrow> int \<Rightarrow> string \<Rightarrow> string option"
  DeleteCommentWithContext :: "call list \<Rightarrow> string \<Rightarrow> string \<Rightarrow> int \<Rightarrow> string option"
  EditCommentWithContext :: "call list \<Rightarrow> string \<Rightarrow> string \<Rightarrow> int \<Rightarrow> string \<Rightarrow> string option"
  CreateCommitCommentWithContext :: "call list \<Rightarrow> string \<Rightarrow> string \<Rightarrow> string \<Rightarrow> string \<Rightarrow> string option"
  ListCommitCommentsWithContext :: "call list \<Rightarrow> string \<Rightarrow> string \<Rightarrow> string \<Rightarrow> string + IssueComment list"

text \<open>\<^verbatim>\<open>fmt.Errorf(msg + "%w", err)\<close> on the answer of a call that returns only an error.\<close>

definition wrapError :: "string \<Rightarrow> string option \<Rightarrow> error option" where
  "wrapError msg r = (case r of None \<Rightarrow> None | Some err \<Rightarrow> Some (Error (msg @ err)))"

definition reportStatus ::
  "(string \<Rightarrow> string \<Rightarrow> string) \<Rightarrow> GitHubClient \<Rightarrow> ProwJob \<Rightarrow> call list \<Rightarrow> error option \<times> call list" where
  "reportStatus ContextDescriptionWithBaseSha ghc pj log =
     (if Spec_Report (Spec pj) then
        (case prowjobStateToGitHubStatus (Status_State (Status pj)) of
           Inl err \<Rightarrow> (Some err, log)
         | Inr contextState \<Rightarrow>
             (case Spec_Refs (Spec pj) of
                None \<Rightarrow> (Some nilDereference, log)
              | Some refs \<Rightarrow>
                  (let sha = (if length (Refs_Pulls refs) > 0 \<and> Spec_Type (Spec pj) \<noteq> PostsubmitJob
                              then Pull_SHA (hd (Refs_Pulls refs)) else Refs_BaseSHA refs);
                       s = \<lparr>GH_State = contextState,
                            GH_Description = ContextDescriptionWithBaseSha
                              (Status_Description (Status pj)) (Refs_BaseSHA refs),
                            GH_Context = Spec_Context (Spec pj),
                            GH_TargetURL = Status_URL (Status pj)\<rparr>
                   in (wrapError [] (CreateStatusWithContext ghc log (Refs_Org refs) (Refs_Repo refs) sha s),
                       log @ [CreateStatus (Refs_Org refs) (Refs_Repo refs) sha s]))))
      else (None, log))"

definition ShouldReport :: "ProwJob \<Rightarrow> ProwJobType list \<Rightarrow> bool" where
  "ShouldReport pj validTypes =
     (let valid = foldl (\<lambda>valid t. if Spec_Type (Spec pj) = t then True else valid) False validTypes
      in if \<not> valid then False
         else if \<not> Spec_Report (Spec pj) then False
         else True)"

fun deleteComments ::
  "GitHubClient \<Rightarrow> string \<Rightarrow> string \<Rightarrow> int list \<Rightarrow> call list \<Rightarrow> error option \<times> call list" where
  "deleteComments ghc org repo [] log = (None, log)"
| "deleteComments ghc org repo (d # ds) log =
     (case wrapError ''error deleting comment: '' (DeleteCommentWithContext ghc log org repo d) of
        Some e \<Rightarrow> (Some e, log @ [DeleteComment org repo d])
      | None \<Rightarrow> deleteComments ghc org repo ds (log @ [DeleteComment org repo d]))"

definition createOrUpdateComments ::
  "GitHubClient \<Rightarrow> template option \<Rightarrow> ProwJob list \<Rightarrow> bool \<Rightarrow> call list \<Rightarrow> error option \<times> call list" where
  "createOrUpdateComments ghc reportTemplate pjs mustComment log =
     (case pjs of
        [] \<Rightarrow> (Some indexOutOfRange, log)
      | pj0 # _ \<Rightarrow>
          (let isPostsubmit = (Spec_Type (Spec pj0) = PostsubmitJob) in
           case Spec_Refs (Spec pj0) of
             None \<Rightarrow> (Some nilDereference, log)
           | Some refs \<Rightarrow>
               if \<not> isPostsubmit \<and> length (Refs_Pulls refs) = 0 then (None, log)
               else
                 (let org = Refs_Org refs; repo = Refs_Repo refs;
                      number = Pull_Number (hd (Refs_Pulls refs));
                      listed = (if isPostsubmit
                                then ListCommitCommentsWithContext ghc log org repo (Refs_BaseSHA refs)
                                else ListIssueCommentsWithContext ghc log org repo number);
                      log1 = log @ [if isPostsubmit then ListCommitComments org repo (Refs_BaseSHA refs)
                                    else ListIssueComments org repo number]
                  in
                  case listed of
                    Inl err \<Rightarrow> (Some (Error (''error listing comments: '' @ err)), log1)
                  | Inr comments \<Rightarrow>
                      (let log2 = log1 @ [BotUserChecker] in
                       case BotUserCheckerWithContext ghc log1 of
                         Inl err \<Rightarrow> (Some (Error (''error getting bot name checker: '' @ err)), log2)
                       | Inr botNameChecker \<Rightarrow>
                           (case parseIssueComments pjs botNameChecker comments of
                              Inl e \<Rightarrow> (Some e, log2)
                            | Inr (deletes, entries, updateID) \<Rightarrow>
                                (case deleteComments ghc org repo deletes log2 of
                                   (Some e, log3) \<Rightarrow> (Some e, log3)
                                 | (None, log3) \<Rightarrow>
                                     if length entries > 0 \<or> mustComment then
                                       (case createComment reportTemplate pjs entries of
                                          Inl (Error err) \<Rightarrow> (Some (Error (''generating comment: '' @ err)), log3)
                                        | Inl (Panic p) \<Rightarrow> (Some (Panic p), log3)
                                        | Inr comment \<Rightarrow>
                                            if updateID = 0 then
                                              (if isPostsubmit then
                                                 (wrapError ''error creating comment: ''
                                                    (CreateCommitCommentWithContext ghc log3 org repo (Refs_BaseSHA refs) comment),
                                                  log3 @ [CreateCommitComment org repo (Refs_BaseSHA refs) comment])
                                               else
                                                 (wrapError ''error creating comment: ''
                                                    (CreateCommentWithContext ghc log3 org repo number comment),
                                                  log3 @ [CreateComment org repo number comment]))
                                            else
                                              (wrapError ''error updating comment: ''
                                                 (EditCommentWithContext ghc log3 org repo updateID comment),
                                               log3 @ [EditComment org repo updateID comment]))
                                     else (None, log3)))))))"

definition ReportStatusContext ::
  "(string \<Rightarrow> string \<Rightarrow> string) \<Rightarrow> GitHubClient option \<Rightarrow> ProwJob \<Rightarrow> GitHubReporter \<Rightarrow> call list
     \<Rightarrow> error option \<times> call list" where
  "ReportStatusContext ContextDescriptionWithBaseSha ghc pj config log =
     (case ghc of
        None \<Rightarrow> (Some (Error (''trying to report pj '' @ ObjectMeta_Name pj @ '', but found empty github client'')), log)
      | Some gc \<Rightarrow>
          if \<not> ShouldReport pj (JobTypesToReport config) then (None, log)
          else
            (case Spec_Refs (Spec pj) of
               None \<Rightarrow> (Some nilDereference, log)
             | Some refs \<Rightarrow>
                 if length (Refs_Pulls refs) > 1 then (None, log)
                 else
                   (case reportStatus ContextDescriptionWithBaseSha gc pj log of
                      (Some (Error err), log1) \<Rightarrow> (Some (Error (''error setting status: '' @ err)), log1)
                    | (Some (Panic p), log1) \<Rightarrow> (Some (Panic p), log1)
                    | (None, log1) \<Rightarrow> (None, log1))))"

text \<open>The first loop of \<^verbatim>\<open>ReportComment\<close>: state \<open>(presubmitPjs, postsubmitPjs)\<close>.\<close>

definition partitionStep ::
  "GitHubReporter \<Rightarrow> ProwJob list \<times> ProwJob list \<Rightarrow> ProwJob \<Rightarrow> ProwJob list \<times> ProwJob list" where
  "partitionStep config st pj =
     (case st of (presubmitPjs, postsubmitPjs) \<Rightarrow>
        if ShouldReport pj (JobTypesToReport config) \<and> Complete pj then
          (if Spec_Type (Spec pj) = PostsubmitJob then
             (case Spec_ReporterConfig (Spec pj) of
                None \<Rightarrow> st
              | Some cfg \<Rightarrow>
                  (case ReporterConfig_GitHub cfg of
                     None \<Rightarrow> st
                   | Some gh \<Rightarrow>
                       if CommentOnPostsubmits gh then (presubmitPjs, postsubmitPjs @ [pj]) else st))
           else (presubmitPjs @ [pj], postsubmitPjs))
        else st)"

text \<open>The second loop of \<^verbatim>\<open>ReportComment\<close>, over the two batches.\<close>

fun reportBatches ::
  "GitHubClient \<Rightarrow> template option \<Rightarrow> ProwJob list list \<Rightarrow> bool \<Rightarrow> call list \<Rightarrow> error option \<times> call list" where
  "reportBatches ghc reportTemplate [] mustCreate log = (None, log)"
| "reportBatches ghc reportTemplate (pjs # rest) mustCreate log =
     (if length pjs = 0 then reportBatches ghc reportTemplate rest mustCreate log
      else
        (case createOrUpdateComments ghc reportTemplate pjs mustCreate log of
           (Some e, log1) \<Rightarrow> (Some e, log1)
         | (None, log1) \<Rightarrow> reportBatches ghc reportTemplate rest mustCreate log1))"

definition issueHasComment ::
  "GitHubClient \<Rightarrow> string \<Rightarrow> string \<Rightarrow> int \<Rightarrow> string \<Rightarrow> call list \<Rightarrow> (error + bool) \<times> call list" where
  "issueHasComment gc org repo number comment log =
     (case BotUserCheckerWithContext gc log of
        Inl err \<Rightarrow> (Inl (Error err), log @ [BotUserChecker])
      | Inr botNameChecker \<Rightarrow>
          (case ListIssueCommentsWithContext gc (log @ [BotUserChecker]) org repo number of
             Inl err \<Rightarrow>
               (Inl (Error (''error listing comments: '' @ err)),
                log @ [BotUserChecker, ListIssueComments org repo number])
           | Inr comments \<Rightarrow>
               (Inr (list_ex (\<lambda>c. botNameChecker (User_Login c) \<and> Contains (Body c) comment) comments),
                log @ [BotUserChecker, ListIssueComments org repo number])))"

definition ReportComment ::
  "GitHubClient option \<Rightarrow> template option \<Rightarrow> ProwJob list \<Rightarrow> GitHubReporter \<Rightarrow> bool \<Rightarrow> call list
     \<Rightarrow> error option \<times> call list" where
  "ReportComment ghc reportTemplate pjs config mustCreate log =
     (case ghc of
        None \<Rightarrow> (Some (Error ''trying to report pj, but found empty github client''), log)
      | Some gc \<Rightarrow>
          (case foldl (partitionStep config) ([], []) pjs of (presubmitPjs, postsubmitPjs) \<Rightarrow>
             (case reportBatches gc reportTemplate [presubmitPjs, postsubmitPjs] mustCreate log of
                (Some e, log1) \<Rightarrow> (Some e, log1)
              | (None, log1) \<Rightarrow>
                  (case postsubmitPjs of
                     [] \<Rightarrow> (None, log1)
                   | pj0 # _ \<Rightarrow>
                       (case Spec_Refs (Spec pj0) of
                          None \<Rightarrow> (Some nilDereference, log1)
                        | Some refs \<Rightarrow>
                            (case Refs_Pulls refs of
                               [] \<Rightarrow> (None, log1)
                             | p # _ \<Rightarrow>
                                 (case issueHasComment gc (Refs_Org refs) (Refs_Repo refs) (Pull_Number p)
                                         prCommitNote log1 of
                                    (Inl e, log2) \<Rightarrow> (Some e, log2)
                                  | (Inr hasComment, log2) \<Rightarrow>
                                      if hasComment then (None, log2)
                                      else
                                        (let note = prCommitNote @ '' '' @ Refs_BaseSHA refs @ [CHR ''\<newline>'']
                                         in (wrapError ''error creating comment: ''
                                               (CreateCommentWithContext gc log2 (Refs_Org refs) (Refs_Repo refs)
                                                  (Pull_Number p) note),
                                             log2 @ [CreateComment (Refs_Org refs) (Refs_Repo refs)
                                                       (Pull_Number p) note])))))))))"

section \<open>The claims in the words of the specification\<close>

text \<open>
  The vocabulary of the specification, used to state the claims. The context key of an
  entry is its first field, \<open>f1[0]\<close> in the source.
\<close>

definition contextKey :: "string \<Rightarrow> string" where
  "contextKey e = hd (Split e '' | '')"

text \<open>
  Rule 2 of the reconciler in the specification's words: when two entries share a context
  key, only the one encountered later in the scan is retained.
\<close>

fun lastOccurrences :: "string list \<Rightarrow> string list" where
  "lastOccurrences [] = []"
| "lastOccurrences (e # es) =
     (if \<exists>e' \<in> set es. contextKey e' = contextKey e then lastOccurrences es
      else e # lastOccurrences es)"

text \<open>A job whose outcome is Failure, and a comment that is the bot's own and carries the marker.\<close>

definition failing :: "ProwJob \<Rightarrow> bool" where
  "failing pj = (Status_State (Status pj) = StatusFailure)"

definition ownMarked :: "(string \<Rightarrow> bool) \<Rightarrow> IssueComment \<Rightarrow> bool" where
  "ownMarked isBot ic = (isBot (User_Login ic) \<and> Contains (Body ic) commentTag)"

text \<open>
  The remote calls by which the synchronizer lists and creates the report comment of a
  review unit: on the commit for a post-merge batch, on the first pull otherwise; and what
  the client answers to the listing after the calls of \<open>log\<close>.
\<close>

definition commentsListing :: "bool \<Rightarrow> Refs \<Rightarrow> call" where
  "commentsListing isPostsubmit refs =
     (if isPostsubmit
      then ListCommitComments (Refs_Org refs) (Refs_Repo refs) (Refs_BaseSHA refs)
      else ListIssueComments (Refs_Org refs) (Refs_Repo refs) (Pull_Number (hd (Refs_Pulls refs))))"

definition commentCreation :: "bool \<Rightarrow> Refs \<Rightarrow> string \<Rightarrow> call" where
  "commentCreation isPostsubmit refs body =
     (if isPostsubmit
      then CreateCommitComment (Refs_Org refs) (Refs_Repo refs) (Refs_BaseSHA refs) body
      else CreateComment (Refs_Org refs) (Refs_Repo refs) (Pull_Number (hd (Refs_Pulls refs))) body)"

definition listingAnswer :: "GitHubClient \<Rightarrow> bool \<Rightarrow> Refs \<Rightarrow> call list \<Rightarrow> string + IssueComment list" where
  "listingAnswer ghc isPostsubmit refs log =
     (if isPostsubmit
      then ListCommitCommentsWithContext ghc log (Refs_Org refs) (Refs_Repo refs) (Refs_BaseSHA refs)
      else ListIssueCommentsWithContext ghc log (Refs_Org refs) (Refs_Repo refs)
             (Pull_Number (hd (Refs_Pulls refs))))"

text \<open>The reporter configuration of a job enables commenting on postsubmits.\<close>

definition commentsOnPostsubmits :: "ProwJob \<Rightarrow> bool" where
  "commentsOnPostsubmits pj =
     (case Spec_ReporterConfig (Spec pj) of
        None \<Rightarrow> False
      | Some cfg \<Rightarrow>
          (case ReporterConfig_GitHub cfg of
             None \<Rightarrow> False
           | Some gh \<Rightarrow> CommentOnPostsubmits gh))"

section \<open>Example inputs\<close>

text \<open>
  Concrete inputs for the witnesses and counterexamples: a pull request \<open>o/r#1\<close>, pre-merge
  jobs on it, the bot \<open>bot\<close>, and report comments as the bot writes them.
\<close>

definition exampleRefs :: Refs where
  "exampleRefs =
     \<lparr>Refs_Org = ''o'', Refs_Repo = ''r'', Refs_BaseSHA = ''b'', Refs_Author = ''a'',
      Refs_Pulls = [\<lparr>Pull_Number = 1, Pull_SHA = ''s'', Pull_Author = ''me''\<rparr>]\<rparr>"

definition exampleJob :: "string \<Rightarrow> ProwJobState \<Rightarrow> (string \<rightharpoonup> string) \<Rightarrow> ProwJob" where
  "exampleJob ctx st labels =
     \<lparr>ObjectMeta_Name = ''pj'', Labels = labels,
      Spec = \<lparr>Spec_Type = PresubmitJob, Spec_Job = ''job'',
               Spec_Refs = Some exampleRefs,
               Spec_Report = True, Spec_Context = ctx, Spec_RerunCommand = ''/t'',
               Spec_ReporterConfig = None\<rparr>,
      Status = \<lparr>Status_State = st, Status_Description = ''d'', Status_URL = ''u'',
                 Status_CompletionTime = Some 0\<rparr>\<rparr>"

definition exampleBot :: "string \<Rightarrow> bool" where
  "exampleBot login = (login = ''bot'')"

definition exampleComment :: "int \<Rightarrow> string list \<Rightarrow> IssueComment" where
  "exampleComment n rows =
     \<lparr>ID = n,
      Body = Join ([''---''] @ rows @ [[], commentTag]) [CHR ''\<newline>''],
      User_Login = ''bot''\<rparr>"

text \<open>A passing job, and a failing job that carries no label at all.\<close>

definition passingJob :: ProwJob where
  "passingJob = exampleJob ''x'' SuccessState Map.empty"

definition unlabelledJob :: ProwJob where
  "unlabelledJob = exampleJob ''x'' FailureState Map.empty"

text \<open>A client whose calls all succeed and whose comment listings are fixed.\<close>

definition exampleClient :: "IssueComment list \<Rightarrow> GitHubClient" where
  "exampleClient comments =
     \<lparr>BotUserCheckerWithContext = (\<lambda>h. Inr exampleBot),
      CreateStatusWithContext = (\<lambda>h org repo ref s. None),
      ListIssueCommentsWithContext = (\<lambda>h org repo number. Inr comments),
      CreateCommentWithContext = (\<lambda>h org repo number comment. None),
      DeleteCommentWithContext = (\<lambda>h org repo n. None),
      EditCommentWithContext = (\<lambda>h org repo n comment. None),
      CreateCommitCommentWithContext = (\<lambda>h org repo sha body. None),
      ListCommitCommentsWithContext = (\<lambda>h org repo sha. Inr comments)\<rparr>"

text \<open>An earlier report comment of the bot with two rows.\<close>

definition historyComment :: IssueComment where
  "historyComment = exampleComment 7 [''x | 1'', ''y | 1'']"

text \<open>
  A reporter that reports both job kinds; a completed, passing post-merge job on the
  example pull whose configuration enables commenting; a completed job on two pulls.
\<close>

definition exampleReporter :: GitHubReporter where
  "exampleReporter = \<lparr>JobTypesToReport = [PresubmitJob, PostsubmitJob]\<rparr>"

definition postJob :: ProwJob where
  "postJob =
     \<lparr>ObjectMeta_Name = ''pj'', Labels = Map.empty,
      Spec = \<lparr>Spec_Type = PostsubmitJob, Spec_Job = ''job'',
               Spec_Refs = Some exampleRefs,
               Spec_Report = True, Spec_Context = ''x'', Spec_RerunCommand = ''/t'',
               Spec_ReporterConfig =
                 Some \<lparr>ReporterConfig_GitHub = Some \<lparr>CommentOnPostsubmits = True\<rparr>\<rparr>\<rparr>,
      Status = \<lparr>Status_State = SuccessState, Status_Description = ''d'', Status_URL = ''u'',
                 Status_CompletionTime = Some 0\<rparr>\<rparr>"

definition batchRefs :: Refs where
  "batchRefs =
     \<lparr>Refs_Org = ''o'', Refs_Repo = ''r'', Refs_BaseSHA = ''b'', Refs_Author = ''a'',
      Refs_Pulls = [\<lparr>Pull_Number = 1, Pull_SHA = ''s'', Pull_Author = ''me''\<rparr>,
                    \<lparr>Pull_Number = 2, Pull_SHA = ''t'', Pull_Author = ''you''\<rparr>]\<rparr>"

definition batchJob :: "ProwJobType \<Rightarrow> ProwJobState \<Rightarrow> ProwJob" where
  "batchJob ty st =
     \<lparr>ObjectMeta_Name = ''pj'', Labels = Map.empty,
      Spec = \<lparr>Spec_Type = ty, Spec_Job = ''job'',
               Spec_Refs = Some batchRefs,
               Spec_Report = True, Spec_Context = ''x'', Spec_RerunCommand = ''/t'',
               Spec_ReporterConfig = None\<rparr>,
      Status = \<lparr>Status_State = st, Status_Description = ''d'', Status_URL = ''u'',
                 Status_CompletionTime = Some 0\<rparr>\<rparr>"

text \<open>The type string of Prow's batch jobs, and a reporter configured to report them.\<close>

definition batchType :: ProwJobType where
  "batchType = ''batch''"

definition batchReporter :: GitHubReporter where
  "batchReporter = \<lparr>JobTypesToReport = [PresubmitJob, PostsubmitJob, batchType]\<rparr>"

text \<open>
  A client over a remote store that starts empty: an issue lists the comments created on
  it by the calls so far, each as the bot's own, with the position of its creating call
  as id; no commit has comments.
\<close>

fun createdFrom :: "nat \<Rightarrow> call list \<Rightarrow> string \<Rightarrow> string \<Rightarrow> int \<Rightarrow> IssueComment list" where
  "createdFrom i [] org repo number = []"
| "createdFrom i (CreateComment org' repo' number' body # h) org repo number =
     (if org' = org \<and> repo' = repo \<and> number' = number
      then \<lparr>ID = 1 + int i, Body = body, User_Login = ''bot''\<rparr>
             # createdFrom (Suc i) h org repo number
      else createdFrom (Suc i) h org repo number)"
| "createdFrom i (c # h) org repo number = createdFrom (Suc i) h org repo number"

definition storeClient :: GitHubClient where
  "storeClient =
     \<lparr>BotUserCheckerWithContext = (\<lambda>h. Inr exampleBot),
      CreateStatusWithContext = (\<lambda>h org repo ref s. None),
      ListIssueCommentsWithContext = (\<lambda>h org repo number. Inr (createdFrom 0 h org repo number)),
      CreateCommentWithContext = (\<lambda>h org repo number comment. None),
      DeleteCommentWithContext = (\<lambda>h org repo n. None),
      EditCommentWithContext = (\<lambda>h org repo n comment. None),
      CreateCommitCommentWithContext = (\<lambda>h org repo sha body. None),
      ListCommitCommentsWithContext = (\<lambda>h org repo sha. Inr [])\<rparr>"

text \<open>The calls of a first run of \<open>ReportComment\<close> on the post-merge job against the empty store.\<close>

definition noteCreation :: call where
  "noteCreation = CreateComment ''o'' ''r'' 1 (prCommitNote @ '' b'' @ [CHR ''\<newline>''])"

definition firstRunLog :: "call list" where
  "firstRunLog =
     [ListCommitComments ''o'' ''r'' ''b'', BotUserChecker,
      BotUserChecker, ListIssueComments ''o'' ''r'' 1, noteCreation]"

section \<open>Theorems\<close>

subsection \<open>The loops of the reconciler\<close>

lemma Split_not_Nil: "Split s (d # ds) \<noteq> []"
  by (cases s) (auto split: list.splits)

lemma inner_keep_fold:
  "foldl (\<lambda>keep j. if i = j then keep
                    else if j > i \<and> hd (Split (entries ! j) sep) = k then False else keep) b js
   = (b \<and> (\<forall>j \<in> set js. \<not> (i < j \<and> hd (Split (entries ! j) sep) = k)))"
  by (induction js arbitrary: b) auto

lemma keepEntry_iff:
  "keepEntry entries m i \<longleftrightarrow>
     m (contextKey (entries ! i)) = None \<and>
     (\<forall>j. i < j \<and> j < length entries \<longrightarrow> contextKey (entries ! j) \<noteq> contextKey (entries ! i))"
  unfolding keepEntry_def Let_def inner_keep_fold contextKey_def
  by auto

lemma kept_fold:
  "foldl (\<lambda>newEntries i. if P i then newEntries @ [entries ! i] else newEntries) acc is
   = acc @ map ((!) entries) (filter P is)"
  by (induction "is" arbitrary: acc) auto

lemma keptEntries_eq:
  "keptEntries entries m = map ((!) entries) (filter (keepEntry entries m) [0..<length entries])"
  by (simp add: keptEntries_def kept_fold)

lemma keepEntry_Suc:
  assumes "i < length es"
  shows "keepEntry (e # es) m (Suc i) = keepEntry es m i"
proof -
  have "(\<forall>j. Suc i < j \<and> j < length (e # es) \<longrightarrow> contextKey ((e # es) ! j) \<noteq> contextKey (es ! i))
        \<longleftrightarrow> (\<forall>j. i < j \<and> j < length es \<longrightarrow> contextKey (es ! j) \<noteq> contextKey (es ! i))"
    (is "?L \<longleftrightarrow> ?R")
  proof
    assume l: ?L
    show ?R
    proof (intro allI impI)
      fix j assume "i < j \<and> j < length es"
      with l [rule_format, of "Suc j"] show "contextKey (es ! j) \<noteq> contextKey (es ! i)" by simp
    qed
  next
    assume r: ?R
    show ?L
    proof (intro allI impI)
      fix j assume j: "Suc i < j \<and> j < length (e # es)"
      then obtain j' where "j = Suc j'" by (cases j) auto
      with j r [rule_format, of j'] show "contextKey ((e # es) ! j) \<noteq> contextKey (es ! i)" by simp
    qed
  qed
  then show ?thesis by (simp add: keepEntry_iff)
qed

lemma keepEntry_0:
  "keepEntry (e # es) m 0 \<longleftrightarrow>
     m (contextKey e) = None \<and> \<not> (\<exists>e' \<in> set es. contextKey e' = contextKey e)"
proof -
  have "(\<forall>j. 0 < j \<and> j < length (e # es) \<longrightarrow> contextKey ((e # es) ! j) \<noteq> contextKey e)
        \<longleftrightarrow> (\<forall>e' \<in> set es. contextKey e' \<noteq> contextKey e)"
    (is "?L \<longleftrightarrow> ?R")
  proof
    assume l: ?L
    show ?R
    proof
      fix e' assume "e' \<in> set es"
      then obtain i where "i < length es" "es ! i = e'" by (auto simp: in_set_conv_nth)
      with l [rule_format, of "Suc i"] show "contextKey e' \<noteq> contextKey e" by simp
    qed
  next
    assume r: ?R
    show ?L
    proof (intro allI impI)
      fix j assume j: "0 < j \<and> j < length (e # es)"
      then obtain j' where "j = Suc j'" by (cases j) auto
      with j r show "contextKey ((e # es) ! j) \<noteq> contextKey e" by simp
    qed
  qed
  then show ?thesis by (simp add: keepEntry_iff)
qed

lemma kept_lastOccurrences:
  "map ((!) entries) (filter (keepEntry entries m) [0..<length entries])
   = filter (\<lambda>e. m (contextKey e) = None) (lastOccurrences entries)"
proof (induction entries)
  case Nil
  show ?case by simp
next
  case (Cons e es)
  have upt: "[0..<length (e # es)] = 0 # map Suc [0..<length es]"
    by (simp add: upt_conv_Cons map_Suc_upt del: upt_Suc)
  have shift: "filter (keepEntry (e # es) m) (map Suc [0..<length es])
               = map Suc (filter (keepEntry es m) [0..<length es])"
    unfolding filter_map comp_def
    by (rule arg_cong [where f = "map Suc"], rule filter_cong) (simp_all add: keepEntry_Suc)
  have "map ((!) (e # es)) (filter (keepEntry (e # es) m) [0..<length (e # es)])
        = (if keepEntry (e # es) m 0 then [e] else [])
          @ map ((!) es) (filter (keepEntry es m) [0..<length es])"
    unfolding upt by (simp add: shift comp_def)
  also have "\<dots> = filter (\<lambda>e. m (contextKey e) = None) (lastOccurrences (e # es))"
    using Cons.IH by (auto simp: keepEntry_0)
  finally show ?case .
qed

lemma pjsMap_fold_None:
  "foldl (\<lambda>m pj. m(Spec_Context (Spec pj) \<mapsto> pj)) m0 pjs k = None
   \<longleftrightarrow> m0 k = None \<and> k \<notin> (\<lambda>pj. Spec_Context (Spec pj)) ` set pjs"
  by (induction pjs arbitrary: m0) auto

lemma pjsMapOf_None:
  "pjsMapOf pjs k = None \<longleftrightarrow> k \<notin> (\<lambda>pj. Spec_Context (Spec pj)) ` set pjs"
  by (simp add: pjsMapOf_def pjsMap_fold_None)

lemma keptEntries_spec:
  "keptEntries entries (pjsMapOf pjs)
   = filter (\<lambda>e. contextKey e \<notin> (\<lambda>pj. Spec_Context (Spec pj)) ` set pjs) (lastOccurrences entries)"
  by (simp add: keptEntries_eq kept_lastOccurrences pjsMapOf_None)


lemma appendFailures_Inr:
  "appendFailures pjs (acc, c) = Inr (es, c') \<Longrightarrow>
     (\<exists>fresh. es = acc @ fresh \<and> map Inr fresh = map createEntry (filter failing pjs))
     \<and> c' = (c \<or> (\<exists>pj \<in> set pjs. failing pj))"
proof (induction pjs arbitrary: acc c)
  case Nil
  then show ?case by simp
next
  case (Cons pj pjs)
  show ?case
  proof (cases "failing pj")
    case False
    with Cons.prems have "appendFailures pjs (acc, c) = Inr (es, c')"
      by (simp add: failing_def)
    from Cons.IH [OF this] False show ?thesis by simp
  next
    case True
    with Cons.prems obtain entry where e: "createEntry pj = Inr entry"
      and rest: "appendFailures pjs (acc @ [entry], True) = Inr (es, c')"
      by (auto simp: failing_def split: sum.splits)
    from Cons.IH [OF rest] obtain fresh where
      "es = (acc @ [entry]) @ fresh" "map Inr fresh = map createEntry (filter failing pjs)" "c'"
      by auto
    with True e show ?thesis by auto
  qed
qed

lemma parseIssueComments_Inr:
  assumes "parseIssueComments pjs isBot ics = Inr (deletes, newEntries, updateID)"
    and "scanComments isBot ics = (previous, latest, entries)"
  shows "\<exists>fresh. newEntries = keptEntries entries (pjsMapOf pjs) @ fresh
           \<and> map Inr fresh = map createEntry (filter failing pjs)"
    and "deletes = previous @
           (if ((\<exists>pj \<in> set pjs. failing pj) \<or> newEntries = []) \<and> latest \<noteq> 0 then [latest] else [])"
    and "updateID =
           (if ((\<exists>pj \<in> set pjs. failing pj) \<or> newEntries = []) \<and> latest \<noteq> 0 then 0 else latest)"
proof -
  from assms obtain c' where
    af: "appendFailures pjs (keptEntries entries (pjsMapOf pjs), False) = Inr (newEntries, c')"
    and res: "(if (c' \<or> length newEntries = 0) \<and> latest \<noteq> 0
               then Inr (previous @ [latest], newEntries, 0)
               else Inr (previous, newEntries, latest)) = (Inr (deletes, newEntries, updateID) :: error + _)"
    by (auto simp: parseIssueComments_def Let_def split: sum.splits prod.splits if_splits)
  from appendFailures_Inr [OF af] have
    fresh: "\<exists>fresh. newEntries = keptEntries entries (pjsMapOf pjs) @ fresh
           \<and> map Inr fresh = map createEntry (filter failing pjs)"
    and c': "c' = (\<exists>pj \<in> set pjs. failing pj)" by auto
  show "\<exists>fresh. newEntries = keptEntries entries (pjsMapOf pjs) @ fresh
           \<and> map Inr fresh = map createEntry (filter failing pjs)" by (rule fresh)
  from res c' show "deletes = previous @
           (if ((\<exists>pj \<in> set pjs. failing pj) \<or> newEntries = []) \<and> latest \<noteq> 0 then [latest] else [])"
    by (auto split: if_splits)
  from res c' show "updateID =
           (if ((\<exists>pj \<in> set pjs. failing pj) \<or> newEntries = []) \<and> latest \<noteq> 0 then 0 else latest)"
    by (auto split: if_splits)
qed

lemma lineStep_entries:
  "foldl lineStep (t, es) ls
   = (fst (foldl lineStep (t, []) ls), es @ snd (foldl lineStep (t, []) ls))"
proof (induction ls arbitrary: t es)
  case Nil
  show ?case by simp
next
  case (Cons l ls)
  obtain t' new where step: "lineStep (t, []) l = (t', new)" by (cases "lineStep (t, []) l")
  then have step': "lineStep (t, es) l = (t', es @ new)"
    by (auto simp: lineStep_def Let_def split: if_splits)
  show ?case
    using Cons.IH [of t' "es @ new"] Cons.IH [of t' new] by (simp add: step step')
qed

lemma scanBody_append: "scanBody entries body = entries @ scanBody [] body"
  unfolding scanBody_def by (subst lineStep_entries) simp

lemma commentStep_fold:
  "foldl (commentStep isBot) (prev, latest, entries) ics
   = (prev @ filter (\<lambda>i. i \<noteq> 0) (butlast (latest # map ID (filter (ownMarked isBot) ics))),
      last (latest # map ID (filter (ownMarked isBot) ics)),
      entries @ concat (map (\<lambda>ic. scanBody [] (Body ic)) (filter (ownMarked isBot) ics)))"
proof (induction ics arbitrary: prev latest entries)
  case Nil
  show ?case by simp
next
  case (Cons ic ics)
  show ?case
  proof (cases "ownMarked isBot ic")
    case False
    then have "commentStep isBot (prev, latest, entries) ic = (prev, latest, entries)"
      by (auto simp: commentStep_def ownMarked_def)
    with False Cons.IH show ?thesis by simp
  next
    case True
    then have "commentStep isBot (prev, latest, entries) ic
               = (prev @ filter (\<lambda>i. i \<noteq> 0) [latest], ID ic, entries @ scanBody [] (Body ic))"
      using scanBody_append [of entries "Body ic"] by (auto simp: commentStep_def ownMarked_def)
    with True Cons.IH show ?thesis by simp
  qed
qed

lemma scanComments_eq:
  "scanComments isBot ics =
     (filter (\<lambda>i. i \<noteq> 0) (butlast (map ID (filter (ownMarked isBot) ics))),
      (if filter (ownMarked isBot) ics = [] then 0 else ID (last (filter (ownMarked isBot) ics))),
      concat (map (\<lambda>ic. scanBody [] (Body ic)) (filter (ownMarked isBot) ics)))"
  unfolding scanComments_def commentStep_fold
  by (cases "filter (ownMarked isBot) ics") (auto simp: last_map)

lemma Split_no_sep:
  "\<not> Contains e (d # ds) \<Longrightarrow> Split e (d # ds) = [e]"
  by (induction e) (auto split: list.splits)

lemma Split_first_sep:
  "\<forall>n < length k. \<not> prefix (d # ds) (drop n (k @ (d # ds) @ r))
   \<Longrightarrow> Split (k @ (d # ds) @ r) (d # ds) = k # Split r (d # ds)"
proof (induction k)
  case Nil
  show ?case by simp
next
  case (Cons c k)
  from Cons.prems have 0: "\<not> prefix (d # ds) ((c # k) @ (d # ds) @ r)"
    by (metis drop0 length_greater_0_conv list.distinct(1))
  have "\<forall>n < length k. \<not> prefix (d # ds) (drop n (k @ (d # ds) @ r))"
  proof (intro allI impI)
    fix n assume "n < length k"
    with Cons.prems [rule_format, of "Suc n"] show "\<not> prefix (d # ds) (drop n (k @ (d # ds) @ r))"
      by simp
  qed
  from Cons.IH [OF this] 0 show ?case by simp
qed



subsection \<open>A run of the synchronizer whose remote calls succeed\<close>

lemma deleteComments_ok:
  "\<forall>h d. DeleteCommentWithContext ghc h org repo d = None \<Longrightarrow>
   deleteComments ghc org repo ds log = (None, log @ map (DeleteComment org repo) ds)"
  by (induction ds arbitrary: log) (simp_all add: wrapError_def)

lemma createOrUpdateComments_ok:
  assumes "pjs = pj0 # rest"
    and "Spec_Refs (Spec pj0) = Some refs"
    and "post = (Spec_Type (Spec pj0) = PostsubmitJob)"
    and "post \<or> Refs_Pulls refs \<noteq> []"
    and "listingAnswer ghc post refs log = Inr comments"
    and "BotUserCheckerWithContext ghc (log @ [commentsListing post refs]) = Inr isBot"
    and "parseIssueComments pjs isBot comments = Inr (deletes, entries, updateID)"
    and "\<forall>h d. DeleteCommentWithContext ghc h (Refs_Org refs) (Refs_Repo refs) d = None"
    and "log3 = log @ [commentsListing post refs, BotUserChecker]
                  @ map (DeleteComment (Refs_Org refs) (Refs_Repo refs)) deletes"
  shows "createOrUpdateComments ghc reportTemplate pjs mustComment log =
     (if entries \<noteq> [] \<or> mustComment then
        (case createComment reportTemplate pjs entries of
           Inl (Error err) \<Rightarrow> (Some (Error (''generating comment: '' @ err)), log3)
         | Inl (Panic p) \<Rightarrow> (Some (Panic p), log3)
         | Inr comment \<Rightarrow>
             if updateID = 0 then
               (wrapError ''error creating comment: ''
                  (if post then CreateCommitCommentWithContext ghc log3 (Refs_Org refs) (Refs_Repo refs)
                                  (Refs_BaseSHA refs) comment
                   else CreateCommentWithContext ghc log3 (Refs_Org refs) (Refs_Repo refs)
                          (Pull_Number (hd (Refs_Pulls refs))) comment),
                log3 @ [commentCreation post refs comment])
             else
               (wrapError ''error updating comment: ''
                  (EditCommentWithContext ghc log3 (Refs_Org refs) (Refs_Repo refs) updateID comment),
                log3 @ [EditComment (Refs_Org refs) (Refs_Repo refs) updateID comment]))
      else (None, log3))"
proof -
  have del: "deleteComments ghc (Refs_Org refs) (Refs_Repo refs) deletes
               (log @ [commentsListing post refs] @ [BotUserChecker]) = (None, log3)"
    using deleteComments_ok [OF assms(8)] assms(9) by simp
  show ?thesis
  proof (cases post)
    case True
    with assms(1-3,5-7) del show ?thesis
      by (simp add: createOrUpdateComments_def Let_def listingAnswer_def commentsListing_def
          commentCreation_def split: sum.splits error.splits)
  next
    case False
    with assms(4) have "Refs_Pulls refs \<noteq> []" by simp
    with False assms(1-3,5-7) del show ?thesis
      by (simp add: createOrUpdateComments_def Let_def listingAnswer_def commentsListing_def
          commentCreation_def split: sum.splits error.splits)
  qed
qed


subsection \<open>The job filter of the comment entry point\<close>

lemma valid_fold:
  "foldl (\<lambda>valid t. if ty = t then True else valid) b validTypes = (b \<or> ty \<in> set validTypes)"
  by (induction validTypes arbitrary: b) auto

lemma ShouldReport_iff:
  "ShouldReport pj validTypes \<longleftrightarrow> Spec_Type (Spec pj) \<in> set validTypes \<and> Spec_Report (Spec pj)"
  by (simp add: ShouldReport_def valid_fold)

lemma partitionStep_eq:
  "partitionStep config (pre, post) pj =
     (pre @ (if ShouldReport pj (JobTypesToReport config) \<and> Complete pj
                \<and> Spec_Type (Spec pj) \<noteq> PostsubmitJob then [pj] else []),
      post @ (if ShouldReport pj (JobTypesToReport config) \<and> Complete pj
                \<and> Spec_Type (Spec pj) = PostsubmitJob \<and> commentsOnPostsubmits pj then [pj] else []))"
  by (simp add: partitionStep_def commentsOnPostsubmits_def split: option.splits)

lemma partitionStep_fold:
  "foldl (partitionStep config) (pre, post) pjs =
     (pre @ filter (\<lambda>pj. ShouldReport pj (JobTypesToReport config) \<and> Complete pj
                          \<and> Spec_Type (Spec pj) \<noteq> PostsubmitJob) pjs,
      post @ filter (\<lambda>pj. ShouldReport pj (JobTypesToReport config) \<and> Complete pj
                          \<and> Spec_Type (Spec pj) = PostsubmitJob \<and> commentsOnPostsubmits pj) pjs)"
proof (induction pjs arbitrary: pre post)
  case Nil
  show ?case by simp
next
  case (Cons pj pjs)
  show ?case
    unfolding foldl_Cons partitionStep_eq Cons.IH by simp
qed

lemma ReportComment_partition:
  assumes "foldl (partitionStep config) ([], []) pjs = foldl (partitionStep config) ([], []) pjs'"
  shows "ReportComment ghc reportTemplate pjs config mustCreate log
     = ReportComment ghc reportTemplate pjs' config mustCreate log"
  unfolding ReportComment_def assms by (rule refl)

lemma Contains_prefix: "prefix p s \<Longrightarrow> Contains s p"
  by (cases s) auto


subsection \<open>The claims\<close>

text \<open>
  C1. Whatever the historical entries and the job batch, the third loop of
  \<open>parseIssueComments\<close> keeps exactly the last occurrence of each context key and, of
  those, the entries whose key is the context of no job of the batch, whatever the state
  of that job. In a run of \<open>parseIssueComments\<close> that returns, the final entry list is
  this list computed from the scanned history, followed by the fresh rows of the failing
  jobs.
\<close>

theorem C1_last_occurrence_then_batch_supersedes:
  "keptEntries entries (pjsMapOf pjs)
     = filter (\<lambda>e. contextKey e \<notin> (\<lambda>pj. Spec_Context (Spec pj)) ` set pjs) (lastOccurrences entries)
   \<and> (parseIssueComments pjs isBot ics = Inr (deletes, newEntries, updateID) \<longrightarrow>
        (\<exists>fresh. newEntries
                   = filter (\<lambda>e. contextKey e \<notin> (\<lambda>pj. Spec_Context (Spec pj)) ` set pjs)
                       (lastOccurrences (snd (snd (scanComments isBot ics)))) @ fresh
                 \<and> map Inr fresh = map createEntry (filter failing pjs)))"
proof (intro conjI impI)
  show "keptEntries entries (pjsMapOf pjs)
     = filter (\<lambda>e. contextKey e \<notin> (\<lambda>pj. Spec_Context (Spec pj)) ` set pjs) (lastOccurrences entries)"
    by (rule keptEntries_spec)
next
  assume run: "parseIssueComments pjs isBot ics = Inr (deletes, newEntries, updateID)"
  obtain previous latest scanned where scan: "scanComments isBot ics = (previous, latest, scanned)"
    by (cases "scanComments isBot ics")
  from parseIssueComments_Inr(1) [OF run scan]
  show "\<exists>fresh. newEntries
                   = filter (\<lambda>e. contextKey e \<notin> (\<lambda>pj. Spec_Context (Spec pj)) ` set pjs)
                       (lastOccurrences (snd (snd (scanComments isBot ics)))) @ fresh
                 \<and> map Inr fresh = map createEntry (filter failing pjs)"
    by (simp add: scan keptEntries_spec)
qed

theorem C1_witness:
  "parseIssueComments [passingJob] exampleBot
       [exampleComment 7 [''x | 1'', ''y | 1''], exampleComment 8 [''y | 2'']]
     = Inr ([7], [''y | 2''], 8)
   \<and> filter (\<lambda>e. contextKey e
                   \<notin> (\<lambda>pj. Spec_Context (Spec pj)) ` set [passingJob])
       (lastOccurrences [''x | 1'', ''y | 1'', ''y | 2''])
     = [''y | 2'']
   \<and> (\<exists>fresh. [''y | 2'']
         = filter (\<lambda>e. contextKey e
                     \<notin> (\<lambda>pj. Spec_Context (Spec pj)) ` set [passingJob])
             (lastOccurrences (snd (snd (scanComments exampleBot
                [exampleComment 7 [''x | 1'', ''y | 1''], exampleComment 8 [''y | 2'']])))) @ fresh
         \<and> map Inr fresh = map createEntry (filter failing [passingJob]))"
proof -
  have run: "parseIssueComments [passingJob] exampleBot
       [exampleComment 7 [''x | 1'', ''y | 1''], exampleComment 8 [''y | 2'']]
     = Inr ([7], [''y | 2''], 8)"
    by code_simp
  have kept: "keptEntries [''x | 1'', ''y | 1'', ''y | 2'']
                (pjsMapOf [passingJob]) = [''y | 2'']"
    by code_simp
  note inst = C1_last_occurrence_then_batch_supersedes
    [of "[''x | 1'', ''y | 1'', ''y | 2'']" "[passingJob]" exampleBot
        "[exampleComment 7 [''x | 1'', ''y | 1''], exampleComment 8 [''y | 2'']]"
        "[7]" "[''y | 2'']" 8]
  have "filter (\<lambda>e. contextKey e
                   \<notin> (\<lambda>pj. Spec_Context (Spec pj)) ` set [passingJob])
       (lastOccurrences [''x | 1'', ''y | 1'', ''y | 2'']) = [''y | 2'']"
    using inst [THEN conjunct1] kept by (rule trans [OF sym])
  moreover note inst [THEN conjunct2, rule_format, OF run]
  ultimately show ?thesis using run by (intro conjI)
qed


text \<open>
  C2. In a run of \<open>parseIssueComments\<close> that returns, with \<open>previous\<close> and \<open>latest\<close>
  as the scan leaves them (\<open>latest = 0\<close> is the source's "no own comment"): \<open>previous\<close>
  holds the ids of all own and marked comments but the last one, \<open>latest\<close> the id of
  the last one; the deletion list is \<open>previous\<close>, followed by \<open>latest\<close> exactly when
  there is a latest comment and a fresh Failure entry was appended or the final entry
  list is empty; the update target is 0 whenever \<open>latest\<close> is deleted and \<open>latest\<close>
  otherwise; and a fresh entry is appended exactly when some job of the batch is failing.
\<close>

theorem C2_deletion_set_and_update_target:
  assumes run: "parseIssueComments pjs isBot ics = Inr (deletes, newEntries, updateID)"
    and scan: "scanComments isBot ics = (previous, latest, entries)"
  shows "previous = filter (\<lambda>i. i \<noteq> 0) (butlast (map ID (filter (ownMarked isBot) ics)))
       \<and> latest = (if filter (ownMarked isBot) ics = [] then 0
                   else ID (last (filter (ownMarked isBot) ics)))
       \<and> deletes = previous @
           (if latest \<noteq> 0 \<and> ((\<exists>pj \<in> set pjs. failing pj) \<or> newEntries = []) then [latest] else [])
       \<and> updateID =
           (if latest \<noteq> 0 \<and> ((\<exists>pj \<in> set pjs. failing pj) \<or> newEntries = []) then 0 else latest)
       \<and> (\<exists>fresh. newEntries = keptEntries entries (pjsMapOf pjs) @ fresh
                 \<and> map Inr fresh = map createEntry (filter failing pjs)
                 \<and> (fresh \<noteq> [] \<longleftrightarrow> (\<exists>pj \<in> set pjs. failing pj)))"
proof -
  from scan have prev: "previous = filter (\<lambda>i. i \<noteq> 0) (butlast (map ID (filter (ownMarked isBot) ics)))"
    and lat: "latest = (if filter (ownMarked isBot) ics = [] then 0
                        else ID (last (filter (ownMarked isBot) ics)))"
    by (simp_all add: scanComments_eq)
  from parseIssueComments_Inr(1) [OF run scan] obtain fresh where
    fresh: "newEntries = keptEntries entries (pjsMapOf pjs) @ fresh"
      "map Inr fresh = map createEntry (filter failing pjs)"
    by blast
  from fresh(2) have "length fresh = length (filter failing pjs)"
    by (metis length_map)
  then have "fresh = [] \<longleftrightarrow> filter failing pjs = []"
    by (metis length_0_conv)
  then have "fresh \<noteq> [] \<longleftrightarrow> (\<exists>pj \<in> set pjs. failing pj)"
    by (simp add: filter_empty_conv)
  with fresh have ex: "\<exists>fresh. newEntries = keptEntries entries (pjsMapOf pjs) @ fresh
                 \<and> map Inr fresh = map createEntry (filter failing pjs)
                 \<and> (fresh \<noteq> [] \<longleftrightarrow> (\<exists>pj \<in> set pjs. failing pj))"
    by blast
  have del: "deletes = previous @
           (if latest \<noteq> 0 \<and> ((\<exists>pj \<in> set pjs. failing pj) \<or> newEntries = []) then [latest] else [])"
    using parseIssueComments_Inr(2) [OF run scan] by (simp add: conj_commute)
  have upd: "updateID =
           (if latest \<noteq> 0 \<and> ((\<exists>pj \<in> set pjs. failing pj) \<or> newEntries = []) then 0 else latest)"
    using parseIssueComments_Inr(3) [OF run scan] by (simp add: conj_commute)
  from prev lat del upd ex show ?thesis by (intro conjI)
qed

theorem C2_witness:
  "parseIssueComments [unlabelledJob] exampleBot
       [exampleComment 7 [''x | 1'', ''y | 1''], exampleComment 8 [''y | 2'']]
     = Inr ([7, 8], [''y | 2'', ''x | s | [link](u) | unknown | `/t`''], 0)
   \<and> scanComments exampleBot [exampleComment 7 [''x | 1'', ''y | 1''], exampleComment 8 [''y | 2'']]
     = ([7], 8, [''x | 1'', ''y | 1'', ''y | 2''])
   \<and> [7, 8] = [7::int] @
        (if (8::int) \<noteq> 0 \<and> ((\<exists>pj \<in> set [unlabelledJob]. failing pj)
              \<or> [''y | 2'', ''x | s | [link](u) | unknown | `/t`''] = [])
         then [8] else [])
   \<and> (0::int) =
        (if (8::int) \<noteq> 0 \<and> ((\<exists>pj \<in> set [unlabelledJob]. failing pj)
              \<or> [''y | 2'', ''x | s | [link](u) | unknown | `/t`''] = [])
         then 0 else 8)"
proof -
  have run: "parseIssueComments [unlabelledJob] exampleBot
       [exampleComment 7 [''x | 1'', ''y | 1''], exampleComment 8 [''y | 2'']]
     = Inr ([7, 8], [''y | 2'', ''x | s | [link](u) | unknown | `/t`''], 0)"
    by code_simp
  have scan: "scanComments exampleBot
       [exampleComment 7 [''x | 1'', ''y | 1''], exampleComment 8 [''y | 2'']]
     = ([7], 8, [''x | 1'', ''y | 1'', ''y | 2''])"
    by code_simp
  note inst = C2_deletion_set_and_update_target [OF run scan]
  from inst have del: "[7, 8] = [7::int] @
        (if (8::int) \<noteq> 0 \<and> ((\<exists>pj \<in> set [unlabelledJob]. failing pj)
              \<or> [''y | 2'', ''x | s | [link](u) | unknown | `/t`''] = [])
         then [8] else [])"
    by (elim conjE)
  from inst have upd: "(0::int) =
        (if (8::int) \<noteq> 0 \<and> ((\<exists>pj \<in> set [unlabelledJob]. failing pj)
              \<or> [''y | 2'', ''x | s | [link](u) | unknown | `/t`''] = [])
         then 0 else 8)"
    by (elim conjE)
  from run scan del upd show ?thesis by (intro conjI)
qed


text \<open>
  C3. A run of \<open>createOrUpdateComments\<close> in which the listing, the bot check and every
  deletion succeed and the reconciler returns \<open>(deletes, entries, updateID)\<close> issues the
  listing, the bot check and the deletions, and then: a create of the rendered comment
  when a job of the batch is failing, or the force flag is set and there are entries,
  and the latest comment was not retained (\<open>updateID = 0\<close>); an update of the latest
  comment with the rendering of the merged entries when it was retained and no job is
  failing; and nothing more when there is no entry and the force flag is not set. A
  failing job always leaves \<open>updateID = 0\<close>, and a retained latest comment always comes
  with entries.
\<close>

theorem C3_create_update_or_only_deletions:
  assumes "pjs = pj0 # rest"
    and "Spec_Refs (Spec pj0) = Some refs"
    and "post = (Spec_Type (Spec pj0) = PostsubmitJob)"
    and "post \<or> Refs_Pulls refs \<noteq> []"
    and "listingAnswer ghc post refs log = Inr comments"
    and "BotUserCheckerWithContext ghc (log @ [commentsListing post refs]) = Inr isBot"
    and "parseIssueComments pjs isBot comments = Inr (deletes, entries, updateID)"
    and "\<forall>h d. DeleteCommentWithContext ghc h (Refs_Org refs) (Refs_Repo refs) d = None"
    and "log3 = log @ [commentsListing post refs, BotUserChecker]
                  @ map (DeleteComment (Refs_Org refs) (Refs_Repo refs)) deletes"
  shows "(((\<exists>pj \<in> set pjs. failing pj) \<or> (mustComment \<and> entries \<noteq> [])) \<and> updateID = 0
            \<and> createComment reportTemplate pjs entries = Inr body \<longrightarrow>
          snd (createOrUpdateComments ghc reportTemplate pjs mustComment log)
            = log3 @ [commentCreation post refs body])
       \<and> (updateID \<noteq> 0 \<and> \<not> (\<exists>pj \<in> set pjs. failing pj)
            \<and> createComment reportTemplate pjs entries = Inr body \<longrightarrow>
          snd (createOrUpdateComments ghc reportTemplate pjs mustComment log)
            = log3 @ [EditComment (Refs_Org refs) (Refs_Repo refs) updateID body])
       \<and> (entries = [] \<and> \<not> mustComment \<longrightarrow>
          createOrUpdateComments ghc reportTemplate pjs mustComment log = (None, log3))
       \<and> ((\<exists>pj \<in> set pjs. failing pj) \<longrightarrow> updateID = 0 \<and> entries \<noteq> [])
       \<and> (updateID \<noteq> 0 \<longrightarrow> entries \<noteq> [] \<and> \<not> (\<exists>pj \<in> set pjs. failing pj))"
proof -
  note run = createOrUpdateComments_ok [OF assms, of reportTemplate mustComment]
  obtain previous latest scanned where scan: "scanComments isBot comments = (previous, latest, scanned)"
    by (cases "scanComments isBot comments")
  from parseIssueComments_Inr(1) [OF assms(7) scan] obtain fresh where
    fresh: "entries = keptEntries scanned (pjsMapOf pjs) @ fresh"
      "map Inr fresh = map createEntry (filter failing pjs)"
    by blast
  from fresh(2) have "length fresh = length (filter failing pjs)" by (metis length_map)
  then have "fresh = [] \<longleftrightarrow> filter failing pjs = []" by (metis length_0_conv)
  then have fr: "(\<exists>pj \<in> set pjs. failing pj) \<longrightarrow> fresh \<noteq> []"
    by (simp add: filter_empty_conv)
  have upd: "updateID =
      (if ((\<exists>pj \<in> set pjs. failing pj) \<or> entries = []) \<and> latest \<noteq> 0 then 0 else latest)"
    by (rule parseIssueComments_Inr(3) [OF assms(7) scan])
  have failing: "(\<exists>pj \<in> set pjs. failing pj) \<longrightarrow> updateID = 0 \<and> entries \<noteq> []"
    using upd fr fresh(1) by auto
  have retained: "updateID \<noteq> 0 \<longrightarrow> entries \<noteq> [] \<and> \<not> (\<exists>pj \<in> set pjs. failing pj)"
    using upd by (auto split: if_splits)
  have create: "((\<exists>pj \<in> set pjs. failing pj) \<or> (mustComment \<and> entries \<noteq> [])) \<and> updateID = 0
            \<and> createComment reportTemplate pjs entries = Inr body \<longrightarrow>
          snd (createOrUpdateComments ghc reportTemplate pjs mustComment log)
            = log3 @ [commentCreation post refs body]"
    using failing by (auto simp: run)
  have update: "updateID \<noteq> 0 \<and> \<not> (\<exists>pj \<in> set pjs. failing pj)
            \<and> createComment reportTemplate pjs entries = Inr body \<longrightarrow>
          snd (createOrUpdateComments ghc reportTemplate pjs mustComment log)
            = log3 @ [EditComment (Refs_Org refs) (Refs_Repo refs) updateID body]"
    using retained by (auto simp: run)
  have only_deletions: "entries = [] \<and> \<not> mustComment \<longrightarrow>
          createOrUpdateComments ghc reportTemplate pjs mustComment log = (None, log3)"
    unfolding run by simp
  from create update only_deletions failing retained show ?thesis by (intro conjI)
qed

theorem C3_witness:
  "(\<exists>body. createComment None [unlabelledJob] [''y | 1'', ''x | s | [link](u) | unknown | `/t`''] = Inr body
      \<and> snd (createOrUpdateComments (exampleClient [historyComment]) None [unlabelledJob] False [])
          = [ListIssueComments ''o'' ''r'' 1, BotUserChecker, DeleteComment ''o'' ''r'' 7,
             CreateComment ''o'' ''r'' 1 body])
   \<and> (\<exists>body. createComment None [passingJob] [''y | 1''] = Inr body
      \<and> snd (createOrUpdateComments (exampleClient [historyComment]) None [passingJob] False [])
          = [ListIssueComments ''o'' ''r'' 1, BotUserChecker, EditComment ''o'' ''r'' 7 body])
   \<and> createOrUpdateComments (exampleClient []) None [passingJob] False []
       = (None, [ListIssueComments ''o'' ''r'' 1, BotUserChecker])"
proof -
  have refs_u: "Spec_Refs (Spec unlabelledJob) = Some exampleRefs"
    and refs_p: "Spec_Refs (Spec passingJob) = Some exampleRefs"
    by (simp_all add: unlabelledJob_def passingJob_def exampleJob_def)
  have post_u: "False = (Spec_Type (Spec unlabelledJob) = PostsubmitJob)"
    and post_p: "False = (Spec_Type (Spec passingJob) = PostsubmitJob)"
    by (simp_all add: unlabelledJob_def passingJob_def exampleJob_def PresubmitJob_def PostsubmitJob_def)
  have pulls: "False \<or> Refs_Pulls exampleRefs \<noteq> []"
    by (simp add: exampleRefs_def)
  have la: "listingAnswer (exampleClient cs) False exampleRefs [] = Inr cs" for cs
    by (simp add: listingAnswer_def exampleClient_def)
  have bc: "BotUserCheckerWithContext (exampleClient cs) ([] @ [commentsListing False exampleRefs])
              = Inr exampleBot" for cs
    by (simp add: exampleClient_def)
  have dl: "\<forall>h d. DeleteCommentWithContext (exampleClient cs) h (Refs_Org exampleRefs)
              (Refs_Repo exampleRefs) d = None" for cs
    by (simp add: exampleClient_def)
  have parse_u: "parseIssueComments [unlabelledJob] exampleBot [historyComment]
      = Inr ([7], [''y | 1'', ''x | s | [link](u) | unknown | `/t`''], 0)"
    by code_simp
  have parse_p: "parseIssueComments [passingJob] exampleBot [historyComment] = Inr ([], [''y | 1''], 7)"
    by code_simp
  have parse_e: "parseIssueComments [passingJob] exampleBot [] = Inr ([], [], 0)"
    by code_simp
  have fail_u: "failing unlabelledJob" and fail_p: "\<not> failing passingJob"
    by code_simp+
  obtain body_u where body_u:
    "createComment None [unlabelledJob] [''y | 1'', ''x | s | [link](u) | unknown | `/t`''] = Inr body_u"
    by (simp add: createComment_def unlabelledJob_def exampleJob_def exampleRefs_def
        PresubmitJob_def PostsubmitJob_def)
  obtain body_p where body_p: "createComment None [passingJob] [''y | 1''] = Inr body_p"
    by (simp add: createComment_def passingJob_def exampleJob_def exampleRefs_def
        PresubmitJob_def PostsubmitJob_def)
  have "snd (createOrUpdateComments (exampleClient [historyComment]) None [unlabelledJob] False [])
          = [ListIssueComments ''o'' ''r'' 1, BotUserChecker, DeleteComment ''o'' ''r'' 7,
             CreateComment ''o'' ''r'' 1 body_u]"
    using C3_create_update_or_only_deletions
      [where reportTemplate = None and mustComment = False and body = body_u,
       OF refl refs_u post_u pulls la bc parse_u dl refl, THEN conjunct1] fail_u body_u
    by (simp add: commentsListing_def commentCreation_def exampleRefs_def)
  with body_u have create: "\<exists>body.
      createComment None [unlabelledJob] [''y | 1'', ''x | s | [link](u) | unknown | `/t`''] = Inr body
      \<and> snd (createOrUpdateComments (exampleClient [historyComment]) None [unlabelledJob] False [])
          = [ListIssueComments ''o'' ''r'' 1, BotUserChecker, DeleteComment ''o'' ''r'' 7,
             CreateComment ''o'' ''r'' 1 body]"
    by blast
  have "snd (createOrUpdateComments (exampleClient [historyComment]) None [passingJob] False [])
          = [ListIssueComments ''o'' ''r'' 1, BotUserChecker, EditComment ''o'' ''r'' 7 body_p]"
    using C3_create_update_or_only_deletions
      [where reportTemplate = None and mustComment = False and body = body_p,
       OF refl refs_p post_p pulls la bc parse_p dl refl, THEN conjunct2, THEN conjunct1] fail_p body_p
    by (simp add: commentsListing_def exampleRefs_def)
  with body_p have update: "\<exists>body. createComment None [passingJob] [''y | 1''] = Inr body
      \<and> snd (createOrUpdateComments (exampleClient [historyComment]) None [passingJob] False [])
          = [ListIssueComments ''o'' ''r'' 1, BotUserChecker, EditComment ''o'' ''r'' 7 body]"
    by blast
  have only_deletions: "createOrUpdateComments (exampleClient []) None [passingJob] False []
       = (None, [ListIssueComments ''o'' ''r'' 1, BotUserChecker])"
    using C3_create_update_or_only_deletions
      [where reportTemplate = None and mustComment = False,
       OF refl refs_p post_p pulls la bc parse_e dl refl, THEN conjunct2, THEN conjunct2, THEN conjunct1]
    by (simp add: commentsListing_def exampleRefs_def)
  from create update only_deletions show ?thesis by (intro conjI)
qed


text \<open>
  C4. The history parser, the first loop of \<open>parseIssueComments\<close>. Only the comments
  that the bot authored and that contain the marker are processed: the scan of a comment
  list is determined by its own and marked comments alone. Each such comment moves the
  recorded latest id (if there is one, that is, if it is not 0) to the previous list and
  becomes the latest. Inside a body, a trimmed line that begins with \<open>---\<close> opens
  capture, a blank line closes it, and any other line is appended, trimmed, while
  capturing and skipped otherwise. The key of an entry is what stands before its first
  \<open>" | "\<close>, or the whole entry when it has none.
\<close>

theorem C4_history_parser:
  "scanComments isBot ics =
     (filter (\<lambda>i. i \<noteq> 0) (butlast (map ID (filter (ownMarked isBot) ics))),
      (if filter (ownMarked isBot) ics = [] then 0 else ID (last (filter (ownMarked isBot) ics))),
      concat (map (\<lambda>ic. scanBody [] (Body ic)) (filter (ownMarked isBot) ics)))
   \<and> scanComments isBot (ics @ [ic]) =
       (case scanComments isBot ics of (previous, latest, entries) \<Rightarrow>
          if ownMarked isBot ic
          then ((if latest \<noteq> 0 then previous @ [latest] else previous), ID ic,
                entries @ scanBody [] (Body ic))
          else (previous, latest, entries))
   \<and> scanBody [] body = snd (foldl lineStep (False, []) (Split body [CHR ''\<newline>'']))
   \<and> (HasPrefix (TrimSpace l) ''---'' \<longrightarrow> lineStep (tracking, es) l = (True, es))
   \<and> (\<not> HasPrefix (TrimSpace l) ''---'' \<and> TrimSpace l = [] \<longrightarrow>
        lineStep (tracking, es) l = (False, es))
   \<and> (\<not> HasPrefix (TrimSpace l) ''---'' \<and> TrimSpace l \<noteq> [] \<longrightarrow>
        lineStep (True, es) l = (True, es @ [TrimSpace l]) \<and> lineStep (False, es) l = (False, es))
   \<and> ((\<forall>n < length k. \<not> prefix '' | '' (drop n (k @ '' | '' @ r))) \<longrightarrow>
        contextKey (k @ '' | '' @ r) = k)
   \<and> (\<not> Contains e '' | '' \<longrightarrow> contextKey e = e)"
proof (intro conjI impI)
  show "scanComments isBot ics =
     (filter (\<lambda>i. i \<noteq> 0) (butlast (map ID (filter (ownMarked isBot) ics))),
      (if filter (ownMarked isBot) ics = [] then 0 else ID (last (filter (ownMarked isBot) ics))),
      concat (map (\<lambda>ic. scanBody [] (Body ic)) (filter (ownMarked isBot) ics)))"
    by (rule scanComments_eq)
next
  obtain previous latest entries where s: "scanComments isBot ics = (previous, latest, entries)"
    by (cases "scanComments isBot ics")
  have "scanComments isBot (ics @ [ic]) = commentStep isBot (previous, latest, entries) ic"
    using s by (simp add: scanComments_def)
  also have "\<dots> = (if ownMarked isBot ic
          then ((if latest \<noteq> 0 then previous @ [latest] else previous), ID ic,
                entries @ scanBody [] (Body ic))
          else (previous, latest, entries))"
    using scanBody_append [of entries "Body ic"] by (auto simp: commentStep_def ownMarked_def)
  finally show "scanComments isBot (ics @ [ic]) =
       (case scanComments isBot ics of (previous, latest, entries) \<Rightarrow>
          if ownMarked isBot ic
          then ((if latest \<noteq> 0 then previous @ [latest] else previous), ID ic,
                entries @ scanBody [] (Body ic))
          else (previous, latest, entries))"
    by (simp add: s)
next
  show "scanBody [] body = snd (foldl lineStep (False, []) (Split body [CHR ''\<newline>'']))"
    by (simp add: scanBody_def)
next
  assume "HasPrefix (TrimSpace l) ''---''"
  then show "lineStep (tracking, es) l = (True, es)"
    by (simp add: lineStep_def)
next
  assume "\<not> HasPrefix (TrimSpace l) ''---'' \<and> TrimSpace l = []"
  then show "lineStep (tracking, es) l = (False, es)"
    by (simp add: lineStep_def HasPrefix_def)
next
  assume "\<not> HasPrefix (TrimSpace l) ''---'' \<and> TrimSpace l \<noteq> []"
  then show "lineStep (True, es) l = (True, es @ [TrimSpace l])"
    by (simp add: lineStep_def)
next
  assume "\<not> HasPrefix (TrimSpace l) ''---'' \<and> TrimSpace l \<noteq> []"
  then show "lineStep (False, es) l = (False, es)"
    by (simp add: lineStep_def)
next
  assume "\<forall>n < length k. \<not> prefix '' | '' (drop n (k @ '' | '' @ r))"
  then have "Split (k @ '' | '' @ r) '' | '' = k # Split r '' | ''"
    by (rule Split_first_sep)
  then show "contextKey (k @ '' | '' @ r) = k"
    by (simp add: contextKey_def)
next
  assume "\<not> Contains e '' | ''"
  then have "Split e '' | '' = [e]" by (rule Split_no_sep)
  then show "contextKey e = e" by (simp add: contextKey_def)
qed

theorem C4_witness:
  "HasPrefix (TrimSpace ''--- | ---'') ''---''
   \<and> lineStep (False, [''a'']) ''--- | ---'' = (True, [''a''])
   \<and> \<not> HasPrefix (TrimSpace ''  '') ''---'' \<and> TrimSpace ''  '' = []
   \<and> lineStep (True, [''a'']) ''  '' = (False, [''a''])
   \<and> \<not> HasPrefix (TrimSpace '' x | 1 '') ''---'' \<and> TrimSpace '' x | 1 '' \<noteq> []
   \<and> lineStep (True, [''a'']) '' x | 1 '' = (True, [''a''] @ [TrimSpace '' x | 1 ''])
   \<and> lineStep (False, [''a'']) '' x | 1 '' = (False, [''a''])
   \<and> contextKey (''x'' @ '' | '' @ ''1'') = ''x''
   \<and> \<not> Contains ''x'' '' | '' \<and> contextKey ''x'' = ''x''"
proof -
  have h1: "HasPrefix (TrimSpace ''--- | ---'') ''---''" by code_simp
  have h2: "\<not> HasPrefix (TrimSpace ''  '') ''---'' \<and> TrimSpace ''  '' = []" by code_simp
  have h3: "\<not> HasPrefix (TrimSpace '' x | 1 '') ''---'' \<and> TrimSpace '' x | 1 '' \<noteq> []"
    by code_simp
  have h4: "\<forall>n < length ''x''. \<not> prefix '' | '' (drop n (''x'' @ '' | '' @ ''1''))" by simp
  have h5: "\<not> Contains ''x'' '' | ''" by simp
  note a = C4_history_parser [of _ _ _ _ "''--- | ---''" False "[''a'']" "''x''" "''1''" "''x''"]
  note b = C4_history_parser [of _ _ _ _ "''  ''" True "[''a'']"]
  note c = C4_history_parser [of _ _ _ _ "'' x | 1 ''" _ "[''a'']"]
  from a h1 have c1: "lineStep (False, [''a'']) ''--- | ---'' = (True, [''a''])" by blast
  from b h2 have c2: "lineStep (True, [''a'']) ''  '' = (False, [''a''])" by blast
  from c h3 have c3: "lineStep (True, [''a'']) '' x | 1 '' = (True, [''a''] @ [TrimSpace '' x | 1 ''])"
    and c4: "lineStep (False, [''a'']) '' x | 1 '' = (False, [''a''])" by blast+
  from a h4 have c5: "contextKey (''x'' @ '' | '' @ ''1'') = ''x''" by blast
  from a h5 have c6: "contextKey ''x'' = ''x''" by blast
  from h1 h2 h3 h5 c1 c2 c3 c4 c5 c6 show ?thesis by (intro conjI) (elim conjE, assumption)+
qed


text \<open>
  C5. The status mapper sends Triggered and Pending to pending, Success to success, Error
  to error, Failure and Aborted to failure, and every other state value to the
  "Unknown prowjob state" error: there is no default status.
\<close>

theorem C5_status_mapper_exhaustive:
  "prowjobStateToGitHubStatus TriggeredState = Inr StatusPending \<and>
   prowjobStateToGitHubStatus PendingState = Inr StatusPending \<and>
   prowjobStateToGitHubStatus SuccessState = Inr StatusSuccess \<and>
   prowjobStateToGitHubStatus ErrorState = Inr StatusError \<and>
   prowjobStateToGitHubStatus FailureState = Inr StatusFailure \<and>
   prowjobStateToGitHubStatus AbortedState = Inr StatusFailure \<and>
   (\<forall>s. s \<notin> {TriggeredState, PendingState, SuccessState, ErrorState, FailureState, AbortedState}
      \<longrightarrow> prowjobStateToGitHubStatus s = Inl (Error (''Unknown prowjob state: '' @ s)))"
  by (simp add: prowjobStateToGitHubStatus_def TriggeredState_def PendingState_def
      SuccessState_def ErrorState_def FailureState_def AbortedState_def)

theorem C5_status_mapper_witness:
  "''bogus'' \<notin> {TriggeredState, PendingState, SuccessState, ErrorState, FailureState, AbortedState}
   \<and> prowjobStateToGitHubStatus ''bogus'' = Inl (Error ''Unknown prowjob state: bogus'')"
  using C5_status_mapper_exhaustive
  by (simp add: TriggeredState_def PendingState_def
      SuccessState_def ErrorState_def FailureState_def AbortedState_def)

text \<open>
  C6. For a non-empty batch whose first job has its refs, and a pull when it is not
  post-merge (without them \<open>createComment\<close> panics), and a template that is nil or
  executes to \<open>b\<close>: rendering zero entries yields the greeting line
  \<open>@author: all tests **passed!**\<close>, an empty line, the template section and the closing
  block, with no header row and no divider row, for a post-merge and for a pre-merge batch
  alike. With entries, the two kinds differ in the four header lines only.
\<close>

theorem C6_zero_entries_all_passed:
  assumes "pjs = pj0 # rest"
    and "Spec_Refs (Spec pj0) = Some refs"
    and "Spec_Type (Spec pj0) \<noteq> PostsubmitJob \<longrightarrow> Refs_Pulls refs \<noteq> []"
    and "(case reportTemplate of None \<Rightarrow> Inr [] | Some t \<Rightarrow> t pj0) = Inr b"
    and "author = (if Spec_Type (Spec pj0) = PostsubmitJob then Refs_Author refs
                   else Pull_Author (hd (Refs_Pulls refs)))"
    and "closing = (if reportTemplate \<noteq> None then [[], b] else [])
                   @ [[], ''<details>'', [], AboutThisBot, ''</details>'', commentTag]"
  shows "createComment reportTemplate pjs [] =
           Inr (Join ([''@'' @ author @ '': all tests **passed!**'', []] @ closing) [CHR ''\<newline>''])
       \<and> (entries \<noteq> [] \<longrightarrow>
            createComment reportTemplate pjs entries =
              Inr (Join
                ((if Spec_Type (Spec pj0) = PostsubmitJob then
                    [''@'' @ author @ '': The following test'' @ (if length entries > 1 then ''s'' else [])
                       @ '' **failed**:'',
                     [],
                     ''Test name | Commit | Details'',
                     ''--- | --- | ---'']
                  else
                    [''@'' @ author @ '': The following test'' @ (if length entries > 1 then ''s'' else [])
                       @ '' **failed**, say `/retest` to rerun all failed tests or `/retest-required` to rerun all mandatory failed tests:'',
                     [],
                     ''Test name | Commit | Details | Required | Rerun command'',
                     ''--- | --- | --- | --- | ---''])
                 @ entries @ closing) [CHR ''\<newline>'']))"
proof (cases "Spec_Type (Spec pj0) = PostsubmitJob")
  case True
  with assms(1,2,4,5,6) show ?thesis
    by (simp add: createComment_def Let_def)
next
  case False
  with assms(3) obtain p ps where "Refs_Pulls refs = p # ps"
    by (cases "Refs_Pulls refs") auto
  with False assms(1,2,4,5,6) show ?thesis
    by (simp add: createComment_def Let_def)
qed

theorem C6_witness:
  "createComment None [passingJob] [] =
     Inr (Join ([''@'' @ ''me'' @ '': all tests **passed!**'', []]
                @ [[], ''<details>'', [], AboutThisBot, ''</details>'', commentTag]) [CHR ''\<newline>''])
   \<and> createComment None [postJob] [] =
     Inr (Join ([''@'' @ ''a'' @ '': all tests **passed!**'', []]
                @ [[], ''<details>'', [], AboutThisBot, ''</details>'', commentTag]) [CHR ''\<newline>''])
   \<and> [''x | 1''] \<noteq> []
   \<and> createComment None [passingJob] [''x | 1''] =
       Inr (Join ([''@'' @ ''me'' @ '': The following test'' @ []
                     @ '' **failed**, say `/retest` to rerun all failed tests or `/retest-required` to rerun all mandatory failed tests:'',
                   [],
                   ''Test name | Commit | Details | Required | Rerun command'',
                   ''--- | --- | --- | --- | ---'']
                  @ [''x | 1'']
                  @ [[], ''<details>'', [], AboutThisBot, ''</details>'', commentTag]) [CHR ''\<newline>''])"
proof -
  have refs: "Spec_Refs (Spec passingJob) = Some exampleRefs"
    and refs': "Spec_Refs (Spec postJob) = Some exampleRefs"
    by (simp_all add: passingJob_def exampleJob_def postJob_def)
  have ty: "Spec_Type (Spec passingJob) \<noteq> PostsubmitJob"
    by (simp add: passingJob_def exampleJob_def PresubmitJob_def PostsubmitJob_def)
  have ty': "Spec_Type (Spec postJob) = PostsubmitJob"
    by (simp add: postJob_def)
  have pulls: "Spec_Type (Spec passingJob) \<noteq> PostsubmitJob \<longrightarrow> Refs_Pulls exampleRefs \<noteq> []"
    and pulls': "Spec_Type (Spec postJob) \<noteq> PostsubmitJob \<longrightarrow> Refs_Pulls exampleRefs \<noteq> []"
    by (simp_all add: exampleRefs_def)
  have tmpl: "(case None :: template option of None \<Rightarrow> Inr [] | Some t \<Rightarrow> t passingJob) = Inr []"
    and tmpl': "(case None :: template option of None \<Rightarrow> Inr [] | Some t \<Rightarrow> t postJob) = Inr []"
    by simp_all
  have author: "''me'' = (if Spec_Type (Spec passingJob) = PostsubmitJob then Refs_Author exampleRefs
                        else Pull_Author (hd (Refs_Pulls exampleRefs)))"
    using ty by (simp add: exampleRefs_def)
  have author': "''a'' = (if Spec_Type (Spec postJob) = PostsubmitJob then Refs_Author exampleRefs
                        else Pull_Author (hd (Refs_Pulls exampleRefs)))"
    using ty' by (simp add: exampleRefs_def)
  have closing: "[[], ''<details>'', [], AboutThisBot, ''</details>'', commentTag]
      = (if (None :: template option) \<noteq> None then [[], []] else [])
        @ [[], ''<details>'', [], AboutThisBot, ''</details>'', commentTag]"
    by simp
  note pre = C6_zero_entries_all_passed
    [where entries = "[''x | 1'']", OF refl refs pulls tmpl author closing]
  note post = C6_zero_entries_all_passed
    [where entries = "[]", OF refl refs' pulls' tmpl' author' closing, THEN conjunct1]
  have ne: "[''x | 1''] \<noteq> []" by simp
  from pre post ty ne show ?thesis by simp
qed


text \<open>
  C7. \<open>ReportStatusContext\<close> returns without a remote call for a job with more than one
  pull, and both entry points return an error without a remote call for the nil client.
  \<open>ReportComment\<close> does not skip such a batch, although its comment says it does: for a
  completed, reportable job with two pulls, of type presubmit or of type batch, it lists
  the comments of the first pull and asks for the bot, and when the job is failing it goes
  on to a third call, the creation of a report comment on the first pull.
\<close>

theorem C7_multi_pull_batch_reaches_remote:
  "Spec_Refs (Spec (batchJob PresubmitJob SuccessState)) = Some batchRefs
   \<and> length (Refs_Pulls batchRefs) = 2
   \<and> ReportStatusContext (\<lambda>description baseSHA. description) (Some (exampleClient []))
        (batchJob PresubmitJob SuccessState) exampleReporter [] = (None, [])
   \<and> ReportComment (Some (exampleClient [])) None [batchJob PresubmitJob SuccessState]
        exampleReporter False []
       = (None, [ListIssueComments ''o'' ''r'' 1, BotUserChecker])
   \<and> ReportStatusContext (\<lambda>description baseSHA. description) (Some (exampleClient []))
        (batchJob batchType SuccessState) batchReporter [] = (None, [])
   \<and> ReportComment (Some (exampleClient [])) None [batchJob batchType SuccessState]
        batchReporter False []
       = (None, [ListIssueComments ''o'' ''r'' 1, BotUserChecker])
   \<and> fst (ReportComment (Some (exampleClient [])) None [batchJob PresubmitJob FailureState]
             exampleReporter False [])
       = None
   \<and> take 2 (snd (ReportComment (Some (exampleClient [])) None [batchJob PresubmitJob FailureState]
                     exampleReporter False []))
       = [ListIssueComments ''o'' ''r'' 1, BotUserChecker]
   \<and> length (snd (ReportComment (Some (exampleClient [])) None [batchJob PresubmitJob FailureState]
                     exampleReporter False [])) = 3
   \<and> ReportComment None None [batchJob PresubmitJob FailureState] exampleReporter False []
       = (Some (Error ''trying to report pj, but found empty github client''), [])
   \<and> ReportComment (Some (exampleClient [])) None [] exampleReporter False [] = (None, [])"
proof -
  have "Spec_Refs (Spec (batchJob PresubmitJob SuccessState)) = Some batchRefs"
    by (simp add: batchJob_def)
  moreover have "length (Refs_Pulls batchRefs) = 2"
    by (simp add: batchRefs_def)
  moreover have "ReportStatusContext (\<lambda>description baseSHA. description) (Some (exampleClient []))
        (batchJob PresubmitJob SuccessState) exampleReporter [] = (None, [])"
    by code_simp
  moreover have "ReportComment (Some (exampleClient [])) None [batchJob PresubmitJob SuccessState]
        exampleReporter False []
       = (None, [ListIssueComments ''o'' ''r'' 1, BotUserChecker])"
    by code_simp
  moreover have "ReportStatusContext (\<lambda>description baseSHA. description) (Some (exampleClient []))
        (batchJob batchType SuccessState) batchReporter [] = (None, [])"
    by code_simp
  moreover have "ReportComment (Some (exampleClient [])) None [batchJob batchType SuccessState]
        batchReporter False []
       = (None, [ListIssueComments ''o'' ''r'' 1, BotUserChecker])"
    by code_simp
  moreover have "fst (ReportComment (Some (exampleClient [])) None [batchJob PresubmitJob FailureState]
                   exampleReporter False []) = None"
    by code_simp
  moreover have "take 2 (snd (ReportComment (Some (exampleClient [])) None
                     [batchJob PresubmitJob FailureState] exampleReporter False []))
       = [ListIssueComments ''o'' ''r'' 1, BotUserChecker]"
    by code_simp
  moreover have "length (snd (ReportComment (Some (exampleClient [])) None
                     [batchJob PresubmitJob FailureState] exampleReporter False [])) = 3"
    by code_simp
  moreover have "ReportComment None None [batchJob PresubmitJob FailureState] exampleReporter False []
       = (Some (Error ''trying to report pj, but found empty github client''), [])"
    by code_simp
  moreover have "ReportComment (Some (exampleClient [])) None [] exampleReporter False [] = (None, [])"
    by code_simp
  ultimately show ?thesis by (intro conjI)
qed


text \<open>
  C8, as the specification states it, fails for a failing pre-merge job that carries no
  is-optional label: the required field of its fresh entry is \<open>unknown\<close>, not \<open>true\<close>.
\<close>

theorem C8_unlabelled_job_counterexample:
  "Spec_Type (Spec unlabelledJob) = PresubmitJob
   \<and> failing unlabelledJob
   \<and> Labels unlabelledJob IsOptionalLabel = None
   \<and> parseIssueComments [unlabelledJob] exampleBot []
       = Inr ([], [''x | s | [link](u) | unknown | `/t`''], 0)
   \<and> parseIssueComments [unlabelledJob] exampleBot []
       \<noteq> Inr ([], [''x | s | [link](u) | true | `/t`''], 0)"
proof -
  have run: "parseIssueComments [unlabelledJob] exampleBot []
       = Inr ([], [''x | s | [link](u) | unknown | `/t`''], 0)"
    by code_simp
  have "Spec_Type (Spec unlabelledJob) = PresubmitJob" by code_simp
  moreover have "failing unlabelledJob" by code_simp
  moreover have "Labels unlabelledJob IsOptionalLabel = None" by code_simp
  ultimately show ?thesis by (simp add: run)
qed

text \<open>
  C8, amended. For a batch of one failing pre-merge job that has a pull, and a comment
  history without any own and marked comment, \<open>parseIssueComments\<close> returns no deletion,
  no update target and exactly one entry, freshly rendered: context, commit of the first
  pull, link, required field, rerun command. The required field is \<open>true\<close> when the
  is-optional label parses as false, \<open>false\<close> when it parses as true, and \<open>unknown\<close> when
  the label is absent or does not parse. The result is a function of the batch and the
  remote state alone, so a second call on the unchanged state returns the same entry.
\<close>

theorem C8_single_failing_presubmit:
  assumes "Spec_Type (Spec pj) = PresubmitJob"
    and "failing pj"
    and "Spec_Refs (Spec pj) = Some refs"
    and "Refs_Pulls refs = p # ps"
    and "\<forall>ic \<in> set ics. \<not> ownMarked isBot ic"
  shows "parseIssueComments [pj] isBot ics =
           Inr ([],
                [Join [Spec_Context (Spec pj),
                       Pull_SHA p,
                       ''[link]('' @ Status_URL (Status pj) @ '')'',
                       (case Labels pj IsOptionalLabel of
                          None \<Rightarrow> ''unknown''
                        | Some label \<Rightarrow>
                            (case ParseBool label of
                               None \<Rightarrow> ''unknown''
                             | Some True \<Rightarrow> ''false''
                             | Some False \<Rightarrow> ''true'')),
                       ''`'' @ Spec_RerunCommand (Spec pj) @ ''`''] '' | ''],
                0)"
proof -
  from assms(5) have "filter (ownMarked isBot) ics = []"
    by (simp add: filter_empty_conv)
  then have scan: "scanComments isBot ics = ([], 0, [])"
    by (simp add: scanComments_eq)
  have kept: "keptEntries [] (pjsMapOf [pj]) = []"
    by (simp add: keptEntries_def)
  have "PresubmitJob \<noteq> PostsubmitJob"
    by (simp add: PresubmitJob_def PostsubmitJob_def)
  with assms(1,3,4) have entry: "createEntry pj =
      Inr (Join [Spec_Context (Spec pj),
                 Pull_SHA p,
                 ''[link]('' @ Status_URL (Status pj) @ '')'',
                 (case Labels pj IsOptionalLabel of
                    None \<Rightarrow> ''unknown''
                  | Some label \<Rightarrow>
                      (case ParseBool label of
                         None \<Rightarrow> ''unknown''
                       | Some True \<Rightarrow> ''false''
                       | Some False \<Rightarrow> ''true'')),
                 ''`'' @ Spec_RerunCommand (Spec pj) @ ''`''] '' | '')"
    by (simp add: createEntry_def FormatBool_def split: option.splits bool.splits)
  from assms(2) have "Status_State (Status pj) = StatusFailure"
    by (simp add: failing_def)
  then show ?thesis
    by (simp add: parseIssueComments_def scan kept entry)
qed

theorem C8_witness:
  "Spec_Type (Spec (exampleJob ''x'' FailureState [IsOptionalLabel \<mapsto> ''false''])) = PresubmitJob
   \<and> failing (exampleJob ''x'' FailureState [IsOptionalLabel \<mapsto> ''false''])
   \<and> parseIssueComments [exampleJob ''x'' FailureState [IsOptionalLabel \<mapsto> ''false'']] exampleBot
        [\<lparr>ID = 5, Body = commentTag, User_Login = ''human''\<rparr>]
       = Inr ([], [''x | s | [link](u) | true | `/t`''], 0)"
proof -
  have ty: "Spec_Type (Spec (exampleJob ''x'' FailureState [IsOptionalLabel \<mapsto> ''false''])) = PresubmitJob"
    by code_simp
  have fl: "failing (exampleJob ''x'' FailureState [IsOptionalLabel \<mapsto> ''false''])"
    by code_simp
  have refs: "Spec_Refs (Spec (exampleJob ''x'' FailureState [IsOptionalLabel \<mapsto> ''false''])) = Some exampleRefs"
    by (simp add: exampleJob_def)
  have pulls: "Refs_Pulls exampleRefs = \<lparr>Pull_Number = 1, Pull_SHA = ''s'', Pull_Author = ''me''\<rparr> # []"
    by (simp add: exampleRefs_def)
  have hist: "\<forall>ic \<in> set [\<lparr>ID = 5, Body = commentTag, User_Login = ''human''\<rparr>]. \<not> ownMarked exampleBot ic"
    by (simp add: ownMarked_def exampleBot_def)
  have "parseIssueComments [exampleJob ''x'' FailureState [IsOptionalLabel \<mapsto> ''false'']] exampleBot
        [\<lparr>ID = 5, Body = commentTag, User_Login = ''human''\<rparr>]
       = Inr ([], [''x | s | [link](u) | true | `/t`''], 0)"
    by (simp add: C8_single_failing_presubmit [OF ty fl refs pulls hist])
       (simp add: exampleJob_def ParseBool_def)
  with ty fl show ?thesis by (intro conjI)
qed


text \<open>
  C9. The one-time note of \<open>ReportComment\<close>, for a batch whose post-merge part is not
  empty and has a pull, in a run where the comment synchronisation, the bot check and the
  listing of the pull's comments succeed. If the listing holds a comment of the bot that
  contains the note text, the run issues no create call after the listing; otherwise it
  issues exactly one, the note naming the base commit. A note created by an earlier run
  contains the note text, so once the remote store lists it as the bot's, no later run
  creates a second one.
\<close>

theorem C9_note_posted_once:
  assumes "foldl (partitionStep config) ([], []) pjs = (presubmitPjs, pj0 # rest)"
    and "Spec_Refs (Spec pj0) = Some refs"
    and "Refs_Pulls refs = p # ps"
    and "reportBatches gc reportTemplate [presubmitPjs, pj0 # rest] mustCreate log = (None, log1)"
    and "BotUserCheckerWithContext gc log1 = Inr isBot"
    and "ListIssueCommentsWithContext gc (log1 @ [BotUserChecker]) (Refs_Org refs) (Refs_Repo refs)
           (Pull_Number p) = Inr comments"
    and "log2 = log1 @ [BotUserChecker, ListIssueComments (Refs_Org refs) (Refs_Repo refs) (Pull_Number p)]"
  shows "((\<exists>c \<in> set comments. isBot (User_Login c) \<and> Contains (Body c) prCommitNote) \<longrightarrow>
            ReportComment (Some gc) reportTemplate pjs config mustCreate log = (None, log2))
       \<and> (\<not> (\<exists>c \<in> set comments. isBot (User_Login c) \<and> Contains (Body c) prCommitNote) \<longrightarrow>
            snd (ReportComment (Some gc) reportTemplate pjs config mustCreate log)
              = log2 @ [CreateComment (Refs_Org refs) (Refs_Repo refs) (Pull_Number p)
                          (prCommitNote @ '' '' @ Refs_BaseSHA refs @ [CHR ''\<newline>''])])
       \<and> ((\<exists>c \<in> set comments. isBot (User_Login c)
              \<and> Body c = prCommitNote @ '' '' @ sha @ [CHR ''\<newline>'']) \<longrightarrow>
            ReportComment (Some gc) reportTemplate pjs config mustCreate log = (None, log2))"
proof -
  have has: "issueHasComment gc (Refs_Org refs) (Refs_Repo refs) (Pull_Number p) prCommitNote log1
      = (Inr (\<exists>c \<in> set comments. isBot (User_Login c) \<and> Contains (Body c) prCommitNote), log2)"
    using assms(5,6,7) by (simp add: issueHasComment_def list_ex_iff)
  have present: "(\<exists>c \<in> set comments. isBot (User_Login c) \<and> Contains (Body c) prCommitNote) \<longrightarrow>
            ReportComment (Some gc) reportTemplate pjs config mustCreate log = (None, log2)"
    using assms(1-4) has by (simp add: ReportComment_def)
  have absent: "\<not> (\<exists>c \<in> set comments. isBot (User_Login c) \<and> Contains (Body c) prCommitNote) \<longrightarrow>
            snd (ReportComment (Some gc) reportTemplate pjs config mustCreate log)
              = log2 @ [CreateComment (Refs_Org refs) (Refs_Repo refs) (Pull_Number p)
                          (prCommitNote @ '' '' @ Refs_BaseSHA refs @ [CHR ''\<newline>''])]"
    using assms(1-4) has by (simp add: ReportComment_def Let_def)
  have "Contains (prCommitNote @ '' '' @ sha @ [CHR ''\<newline>'']) prCommitNote"
    by (rule Contains_prefix) simp
  then have "(\<exists>c \<in> set comments. isBot (User_Login c)
              \<and> Body c = prCommitNote @ '' '' @ sha @ [CHR ''\<newline>'']) \<longrightarrow>
        (\<exists>c \<in> set comments. isBot (User_Login c) \<and> Contains (Body c) prCommitNote)"
    by auto
  with present have again: "(\<exists>c \<in> set comments. isBot (User_Login c)
              \<and> Body c = prCommitNote @ '' '' @ sha @ [CHR ''\<newline>'']) \<longrightarrow>
            ReportComment (Some gc) reportTemplate pjs config mustCreate log = (None, log2)"
    by blast
  from present absent again show ?thesis by (intro conjI)
qed

theorem C9_witness:
  "snd (ReportComment (Some storeClient) None [postJob] exampleReporter False []) = firstRunLog
   \<and> ReportComment (Some storeClient) None [postJob] exampleReporter False firstRunLog
       = (None, firstRunLog @ [ListCommitComments ''o'' ''r'' ''b'', BotUserChecker,
                               BotUserChecker, ListIssueComments ''o'' ''r'' 1])"
proof -
  have part: "foldl (partitionStep exampleReporter) ([], []) [postJob] = ([], postJob # [])"
    unfolding partitionStep_fold
    by (simp add: ShouldReport_iff Complete_def commentsOnPostsubmits_def
        postJob_def exampleReporter_def)
  have refs: "Spec_Refs (Spec postJob) = Some exampleRefs"
    by (simp add: postJob_def)
  have pulls: "Refs_Pulls exampleRefs = \<lparr>Pull_Number = 1, Pull_SHA = ''s'', Pull_Author = ''me''\<rparr> # []"
    by (simp add: exampleRefs_def)
  have bot: "BotUserCheckerWithContext storeClient h = Inr exampleBot" for h
    by (simp add: storeClient_def)
  have sync1: "reportBatches storeClient None [[], postJob # []] False []
      = (None, [ListCommitComments ''o'' ''r'' ''b'', BotUserChecker])"
    by code_simp
  have list1: "ListIssueCommentsWithContext storeClient
        ([ListCommitComments ''o'' ''r'' ''b'', BotUserChecker] @ [BotUserChecker])
        (Refs_Org exampleRefs) (Refs_Repo exampleRefs)
        (Pull_Number \<lparr>Pull_Number = 1, Pull_SHA = ''s'', Pull_Author = ''me''\<rparr>) = Inr []"
    by (simp add: storeClient_def)
  have absent: "\<not> (\<exists>c \<in> set ([] :: IssueComment list).
      exampleBot (User_Login c) \<and> Contains (Body c) prCommitNote)"
    by simp
  have run1: "snd (ReportComment (Some storeClient) None [postJob] exampleReporter False []) = firstRunLog"
    using C9_note_posted_once [OF part refs pulls sync1 bot list1 refl, THEN conjunct2, THEN conjunct1]
      absent
    by (simp add: firstRunLog_def noteCreation_def exampleRefs_def)
  have sync2: "reportBatches storeClient None [[], postJob # []] False firstRunLog
      = (None, firstRunLog @ [ListCommitComments ''o'' ''r'' ''b'', BotUserChecker])"
    by code_simp
  have list2: "ListIssueCommentsWithContext storeClient
        ((firstRunLog @ [ListCommitComments ''o'' ''r'' ''b'', BotUserChecker]) @ [BotUserChecker])
        (Refs_Org exampleRefs) (Refs_Repo exampleRefs)
        (Pull_Number \<lparr>Pull_Number = 1, Pull_SHA = ''s'', Pull_Author = ''me''\<rparr>)
      = Inr [\<lparr>ID = 5, Body = prCommitNote @ '' '' @ ''b'' @ [CHR ''\<newline>''], User_Login = ''bot''\<rparr>]"
    by (simp add: storeClient_def firstRunLog_def noteCreation_def exampleRefs_def)
  have present: "\<exists>c \<in> set [\<lparr>ID = 5, Body = prCommitNote @ '' '' @ ''b'' @ [CHR ''\<newline>''],
                                User_Login = ''bot''\<rparr>].
      exampleBot (User_Login c) \<and> Body c = prCommitNote @ '' '' @ ''b'' @ [CHR ''\<newline>'']"
    by (simp add: exampleBot_def)
  have run2: "ReportComment (Some storeClient) None [postJob] exampleReporter False firstRunLog
       = (None, firstRunLog @ [ListCommitComments ''o'' ''r'' ''b'', BotUserChecker,
                               BotUserChecker, ListIssueComments ''o'' ''r'' 1])"
    using C9_note_posted_once [OF part refs pulls sync2 bot list2 refl,
        THEN conjunct2, THEN conjunct2, THEN mp, OF present]
    by (simp add: exampleRefs_def)
  from run1 run2 show ?thesis by (intro conjI)
qed


text \<open>
  C10. The first loop of \<open>ReportComment\<close> keeps, for the pre-merge batch, the jobs that
  should be reported, are complete and are not post-merge, and for the post-merge batch the
  jobs that should be reported, are complete, are post-merge and whose reporter
  configuration enables commenting on postsubmits. A job that is incomplete, or
  post-merge without that configuration, changes nothing: the run with it equals the run
  without it, in result and in remote calls. When every job is filtered out the run
  returns without any remote call.
\<close>

theorem C10_filtered_jobs_are_ignored:
  "foldl (partitionStep config) ([], []) pjs =
     (filter (\<lambda>pj. ShouldReport pj (JobTypesToReport config) \<and> Complete pj
                    \<and> Spec_Type (Spec pj) \<noteq> PostsubmitJob) pjs,
      filter (\<lambda>pj. ShouldReport pj (JobTypesToReport config) \<and> Complete pj
                    \<and> Spec_Type (Spec pj) = PostsubmitJob \<and> commentsOnPostsubmits pj) pjs)
   \<and> (\<not> Complete pj \<or> (Spec_Type (Spec pj) = PostsubmitJob \<and> \<not> commentsOnPostsubmits pj) \<longrightarrow>
        ReportComment ghc reportTemplate (before @ pj # after) config mustCreate log
          = ReportComment ghc reportTemplate (before @ after) config mustCreate log)
   \<and> ((\<forall>pj \<in> set pjs. \<not> Complete pj \<or> \<not> ShouldReport pj (JobTypesToReport config)
                        \<or> (Spec_Type (Spec pj) = PostsubmitJob \<and> \<not> commentsOnPostsubmits pj)) \<longrightarrow>
        ReportComment (Some gc) reportTemplate pjs config mustCreate log = (None, log))"
proof (intro conjI impI)
  show "foldl (partitionStep config) ([], []) pjs =
     (filter (\<lambda>pj. ShouldReport pj (JobTypesToReport config) \<and> Complete pj
                    \<and> Spec_Type (Spec pj) \<noteq> PostsubmitJob) pjs,
      filter (\<lambda>pj. ShouldReport pj (JobTypesToReport config) \<and> Complete pj
                    \<and> Spec_Type (Spec pj) = PostsubmitJob \<and> commentsOnPostsubmits pj) pjs)"
    by (simp add: partitionStep_fold)
next
  assume "\<not> Complete pj \<or> (Spec_Type (Spec pj) = PostsubmitJob \<and> \<not> commentsOnPostsubmits pj)"
  then have "foldl (partitionStep config) ([], []) (before @ pj # after)
             = foldl (partitionStep config) ([], []) (before @ after)"
    unfolding partitionStep_fold by auto
  then show "ReportComment ghc reportTemplate (before @ pj # after) config mustCreate log
          = ReportComment ghc reportTemplate (before @ after) config mustCreate log"
    by (rule ReportComment_partition)
next
  assume "\<forall>pj \<in> set pjs. \<not> Complete pj \<or> \<not> ShouldReport pj (JobTypesToReport config)
                        \<or> (Spec_Type (Spec pj) = PostsubmitJob \<and> \<not> commentsOnPostsubmits pj)"
  then have "foldl (partitionStep config) ([], []) pjs = ([], [])"
    unfolding partitionStep_fold by (auto simp: filter_empty_conv)
  then show "ReportComment (Some gc) reportTemplate pjs config mustCreate log = (None, log)"
    by (simp add: ReportComment_def)
qed

theorem C10_witness:
  "\<not> Complete (passingJob\<lparr>Status := (Status passingJob)\<lparr>Status_CompletionTime := None\<rparr>\<rparr>)
   \<and> ReportComment (Some (exampleClient [])) None
        ([unlabelledJob] @ passingJob\<lparr>Status := (Status passingJob)\<lparr>Status_CompletionTime := None\<rparr>\<rparr> # [])
        exampleReporter False []
      = ReportComment (Some (exampleClient [])) None ([unlabelledJob] @ []) exampleReporter False []
   \<and> ReportComment (Some (exampleClient [])) None
        [passingJob\<lparr>Status := (Status passingJob)\<lparr>Status_CompletionTime := None\<rparr>\<rparr>,
         postJob\<lparr>Spec := (Spec postJob)\<lparr>Spec_ReporterConfig := None\<rparr>\<rparr>]
        exampleReporter False []
      = (None, [])"
proof -
  have inc: "\<not> Complete (passingJob\<lparr>Status := (Status passingJob)\<lparr>Status_CompletionTime := None\<rparr>\<rparr>)"
    by (simp add: Complete_def)
  have post: "Spec_Type (Spec (postJob\<lparr>Spec := (Spec postJob)\<lparr>Spec_ReporterConfig := None\<rparr>\<rparr>)) = PostsubmitJob
      \<and> \<not> commentsOnPostsubmits (postJob\<lparr>Spec := (Spec postJob)\<lparr>Spec_ReporterConfig := None\<rparr>\<rparr>)"
    by (simp add: postJob_def commentsOnPostsubmits_def)
  have all: "\<forall>pj \<in> set [passingJob\<lparr>Status := (Status passingJob)\<lparr>Status_CompletionTime := None\<rparr>\<rparr>,
                         postJob\<lparr>Spec := (Spec postJob)\<lparr>Spec_ReporterConfig := None\<rparr>\<rparr>].
      \<not> Complete pj \<or> \<not> ShouldReport pj (JobTypesToReport exampleReporter)
        \<or> (Spec_Type (Spec pj) = PostsubmitJob \<and> \<not> commentsOnPostsubmits pj)"
    using inc post by simp
  note a = C10_filtered_jobs_are_ignored
    [where pj = "passingJob\<lparr>Status := (Status passingJob)\<lparr>Status_CompletionTime := None\<rparr>\<rparr>"
       and before = "[unlabelledJob]" and after = "[]" and config = exampleReporter
       and ghc = "Some (exampleClient [])" and reportTemplate = None and mustCreate = False
       and log = "[]", THEN conjunct2, THEN conjunct1, THEN mp]
  note b = C10_filtered_jobs_are_ignored
    [where pjs = "[passingJob\<lparr>Status := (Status passingJob)\<lparr>Status_CompletionTime := None\<rparr>\<rparr>,
                   postJob\<lparr>Spec := (Spec postJob)\<lparr>Spec_ReporterConfig := None\<rparr>\<rparr>]"
       and config = exampleReporter and gc = "exampleClient []" and reportTemplate = None
       and mustCreate = False and log = "[]", THEN conjunct2, THEN conjunct2, THEN mp]
  from inc have "ReportComment (Some (exampleClient [])) None
        ([unlabelledJob] @ passingJob\<lparr>Status := (Status passingJob)\<lparr>Status_CompletionTime := None\<rparr>\<rparr> # [])
        exampleReporter False []
      = ReportComment (Some (exampleClient [])) None ([unlabelledJob] @ []) exampleReporter False []"
    by (intro a disjI1)
  moreover from all have "ReportComment (Some (exampleClient [])) None
        [passingJob\<lparr>Status := (Status passingJob)\<lparr>Status_CompletionTime := None\<rparr>\<rparr>,
         postJob\<lparr>Spec := (Spec postJob)\<lparr>Spec_ReporterConfig := None\<rparr>\<rparr>]
        exampleReporter False []
      = (None, [])"
    by (rule b)
  ultimately show ?thesis using inc by (intro conjI)
qed


end
